theory Spec2Isabelle
  imports Complex_Main "HOL-Library.Sublist" "HOL-Library.AList"
begin

section \<open>JavaScript values\<close>

text \<open>
  The two service files \<^verbatim>\<open>integrationService.js\<close> and \<^verbatim>\<open>aiService.js\<close> work on untyped
  JavaScript values. A number is a double: not-a-number, an infinity, or a finite value
  given by its exact rational (\<open>Fin 0\<close> stands for both zeros). A \<open>Date\<close> object carries
  its time value. \<open>JObject\<close> is a plain data object such as the \<^verbatim>\<open>_aiEnhancement\<close> entry
  that \<^verbatim>\<open>processBatch\<close> stores in a mapped record. A string is the list of its code units;
  the character functions below cover the code units below 256.
\<close>

datatype jsnum = NaN | PosInf | NegInf | Fin rat

datatype jsval = JUndefined | JNull | JBool bool | JNum jsnum | JStr string | JDate jsnum | JObject

text \<open>What a \<^verbatim>\<open>throw\<close> carries: a \<^verbatim>\<open>TypeError\<close> raised by the engine, or \<^verbatim>\<open>new Error(message)\<close>.\<close>

datatype jserr = TypeError | Thrown string

fun truthy :: "jsval \<Rightarrow> bool" where
  "truthy JUndefined = False"
| "truthy JNull = False"
| "truthy (JBool b) = b"
| "truthy (JNum n) = (n \<noteq> NaN \<and> n \<noteq> Fin 0)"
| "truthy (JStr s) = (s \<noteq> [])"
| "truthy (JDate d) = True"
| "truthy JObject = True"

text \<open>\<^verbatim>\<open>v == null\<close> holds of \<^verbatim>\<open>null\<close> and \<^verbatim>\<open>undefined\<close> only.\<close>

definition nullish :: "jsval \<Rightarrow> bool" where
  "nullish v = (v = JUndefined \<or> v = JNull)"

text \<open>\<^verbatim>\<open>a || b\<close>\<close>

definition jsOr :: "jsval \<Rightarrow> jsval \<Rightarrow> jsval" where
  "jsOr a b = (if truthy a then a else b)"

text \<open>
  Built-in functions of the engine whose results the services only pass on: number and
  date formatting, number and date parsing, \<^verbatim>\<open>Math.max\<close> with its conversions, the
  relational comparison of two defined values, and the properties that the rule tables
  of the Conflict Resolver inherit from \<^verbatim>\<open>Object.prototype\<close>. Every definition that calls
  one takes the record as its first argument, and every theorem holds for all such
  records.
\<close>

record builtins =
  numberToString :: "jsnum \<Rightarrow> string"
  dateToString :: "jsnum \<Rightarrow> string"
  parseFloat :: "jsval \<Rightarrow> jsnum"
  isoDate :: "jsval \<Rightarrow> string option"
  roundCents :: "jsnum \<Rightarrow> jsnum"
  mathMax :: "jsval \<Rightarrow> jsval \<Rightarrow> jsnum"
  greater :: "jsval \<Rightarrow> jsval \<Rightarrow> bool"
  inheritedCall :: "string \<Rightarrow> string \<Rightarrow> jsval \<Rightarrow> jsval \<Rightarrow> jserr + jsval"

text \<open>
  \<open>isoDate B v\<close> is \<^verbatim>\<open>new Date(v).toISOString().split('T')[0]\<close>, and \<open>None\<close> when
  \<^verbatim>\<open>toISOString\<close> throws a \<^verbatim>\<open>RangeError\<close> on an invalid date. \<open>roundCents B x\<close> is
  \<^verbatim>\<open>Math.round(x * 100) / 100\<close>. \<open>inheritedCall B dataType name source target\<close> is the
  outcome of \<^verbatim>\<open>(dataTypes[dataType]?.[name] || dataTypes['String'][name])(source, target)\<close>
  for a \<open>name\<close> that is no key of the rule tables themselves: the look-up then walks
  the prototype chain (\<^verbatim>\<open>dataTypes['constructor']\<close> is \<^verbatim>\<open>Object\<close>,
  \<^verbatim>\<open>dataTypes.String['toString']\<close> is \<^verbatim>\<open>Object.prototype.toString\<close>), and the call raises a
  \<^verbatim>\<open>TypeError\<close> when nothing callable is found, and otherwise does what the built-in
  function found does.
\<close>

text \<open>The string conversion of a template literal \<^verbatim>\<open>`${v}`\<close>.\<close>

fun toStringJS :: "builtins \<Rightarrow> jsval \<Rightarrow> string" where
  "toStringJS B JUndefined = ''undefined''"
| "toStringJS B JNull = ''null''"
| "toStringJS B (JBool b) = (if b then ''true'' else ''false'')"
| "toStringJS B (JNum n) = numberToString B n"
| "toStringJS B (JStr s) = s"
| "toStringJS B (JDate d) = dateToString B d"
| "toStringJS B JObject = ''[object Object]''"

text \<open>
  \<^verbatim>\<open>a > b\<close>: an \<^verbatim>\<open>undefined\<close> operand converts to \<^verbatim>\<open>NaN\<close>, and every comparison
  with \<^verbatim>\<open>NaN\<close> is false.
\<close>

definition jsGreater :: "builtins \<Rightarrow> jsval \<Rightarrow> jsval \<Rightarrow> bool" where
  "jsGreater B a b = (if a = JUndefined \<or> b = JUndefined then False else greater B a b)"

text \<open>
  \<^verbatim>\<open>v.length\<close> of a defined value: the length of a string, \<^verbatim>\<open>undefined\<close> (here \<open>None\<close>)
  of a number, boolean, date or plain object.
\<close>

fun jsLength :: "jsval \<Rightarrow> nat option" where
  "jsLength (JStr s) = Some (length s)"
| "jsLength v = None"

text \<open>\<^verbatim>\<open>a >= b\<close> on two such lengths: false as soon as one is \<^verbatim>\<open>undefined\<close>.\<close>

fun lengthGe :: "nat option \<Rightarrow> nat option \<Rightarrow> bool" where
  "lengthGe (Some a) (Some b) = (b \<le> a)"
| "lengthGe a b = False"

subsection \<open>Characters and strings\<close>

definition isDigit :: "char \<Rightarrow> bool" where
  "isDigit c = (c \<in> set ''0123456789'')"

text \<open>The class \<^verbatim>\<open>\s\<close>: tab, line feed, vertical tab, form feed, carriage return, space, no-break space.\<close>

definition isSpace :: "char \<Rightarrow> bool" where
  "isSpace c = (c \<in> set [CHR 0x09, CHR 0x0A, CHR 0x0B, CHR 0x0C, CHR 0x0D, CHR 0x20, CHR 0xA0])"

definition toLowerChar :: "char \<Rightarrow> char" where
  "toLowerChar c =
     (let n = (of_char c :: nat)
      in if (65 \<le> n \<and> n \<le> 90) \<or> (192 \<le> n \<and> n < 215) \<or> (215 < n \<and> n \<le> 222)
         then char_of (n + 32) else c)"

definition toLowerCase :: "string \<Rightarrow> string" where
  "toLowerCase s = map toLowerChar s"

definition trim :: "string \<Rightarrow> string" where
  "trim s = rev (dropWhile isSpace (rev (dropWhile isSpace s)))"

text \<open>\<^verbatim>\<open>s.replace(/\s+/g, ' ')\<close>: every maximal run of white space becomes one space.\<close>

function collapseSpaces :: "string \<Rightarrow> string" where
  "collapseSpaces [] = []"
| "collapseSpaces (c # cs) =
     (if isSpace c then CHR '' '' # collapseSpaces (dropWhile isSpace cs)
      else c # collapseSpaces cs)"
  by pat_completeness auto
termination
  by (relation "measure length") (auto simp: length_dropWhile_le le_imp_less_Suc)

text \<open>\<^verbatim>\<open>s.replace(/\D/g, '')\<close>\<close>

definition stripNonDigits :: "string \<Rightarrow> string" where
  "stripNonDigits s = filter isDigit s"

text \<open>\<^verbatim>\<open>s.includes(t)\<close>\<close>

definition jsIncludes :: "string \<Rightarrow> string \<Rightarrow> bool" where
  "jsIncludes s t = sublist t s"

text \<open>\<^verbatim>\<open>s.replace('-', '_')\<close> replaces the first dash only.\<close>

fun replaceDash :: "string \<Rightarrow> string" where
  "replaceDash [] = []"
| "replaceDash (c # cs) = (if c = CHR ''-'' then CHR ''_'' # cs else c # replaceDash cs)"

subsection \<open>Double arithmetic\<close>

text \<open>
  The similarity score, the overall confidence and the success rate are computed in
  doubles from small integers. \<open>dbl x\<close> is the double nearest to the rational \<open>x\<close>
  (53 significant bits, ties to even); the magnitudes that occur stay far inside the
  normal range, so overflow and subnormal numbers are left out.
\<close>

fun bitLength :: "nat \<Rightarrow> nat" where
  "bitLength n = (if n = 0 then 0 else Suc (bitLength (n div 2)))"

declare bitLength.simps [simp del]

definition pow2 :: "int \<Rightarrow> rat" where
  "pow2 k = (if 0 \<le> k then 2 ^ nat k else 1 / 2 ^ nat (- k))"

text \<open>\<open>exponentOf x\<close> is the \<open>e\<close> with \<open>2 ^ e \<le> x < 2 ^ (e + 1)\<close>, for positive \<open>x\<close>.\<close>

definition exponentOf :: "rat \<Rightarrow> int" where
  "exponentOf x =
     (if 1 \<le> x then int (bitLength (nat \<lfloor>x\<rfloor>)) - 1
      else (let k = int (bitLength (nat \<lfloor>1 / x\<rfloor>)) in if pow2 (1 - k) \<le> x then 1 - k else - k))"

definition roundHalfEven :: "rat \<Rightarrow> int" where
  "roundHalfEven x =
     (let n = \<lfloor>x\<rfloor>; f = x - of_int n
      in if f < 1 / 2 then n else if 1 / 2 < f then n + 1 else if even n then n else n + 1)"

definition dbl :: "rat \<Rightarrow> rat" where
  "dbl x =
     (if x = 0 then 0
      else (let a = \<bar>x\<bar>; u = pow2 (exponentOf a - 52)
            in sgn x * of_int (roundHalfEven (a / u)) * u))"

text \<open>\<^verbatim>\<open>Math.round\<close>: the nearest integer, a tie going up.\<close>

definition mathRound :: "rat \<Rightarrow> int" where
  "mathRound x = \<lfloor>x + 1 / 2\<rfloor>"

definition digitChar :: "nat \<Rightarrow> char" where
  "digitChar d = char_of (48 + d)"

fun digitsOf :: "nat \<Rightarrow> string" where
  "digitsOf n = (if n < 10 then [digitChar n] else digitsOf (n div 10) @ [digitChar (n mod 10)])"

declare digitsOf.simps [simp del]

text \<open>
  \<^verbatim>\<open>x.toFixed(2)\<close> for \<open>0 \<le> x < 10 ^ 21\<close>: the integer \<open>n\<close> nearest to \<open>x * 100\<close> (the larger
  one on a tie), written in decimal with at least three digits and a point before the
  last two.
\<close>

definition formatHundredths :: "nat \<Rightarrow> string" where
  "formatHundredths n =
     (let m = digitsOf n;
          m' = replicate (3 - length m) (CHR ''0'') @ m
      in take (length m' - 2) m' @ ''.'' @ drop (length m' - 2) m')"

definition toFixed2 :: "rat \<Rightarrow> string" where
  "toFixed2 x = formatHundredths (nat \<lfloor>x * 100 + 1 / 2\<rfloor>)"

section \<open>Transformer (\<^verbatim>\<open>integrationService.js\<close>)\<close>

text \<open>
  Each helper returns at once on a falsy argument (\<^verbatim>\<open>if (!x) return x\<close>). The string
  methods \<^verbatim>\<open>replace\<close>, \<^verbatim>\<open>toLowerCase\<close> and \<^verbatim>\<open>trim\<close> exist on strings only: calling one
  on a truthy number, boolean, date or plain object raises a \<^verbatim>\<open>TypeError\<close>.
\<close>

definition formatPhone :: "jsval \<Rightarrow> jserr + jsval" where
  "formatPhone phone =
     (if \<not> truthy phone then Inr phone
      else case phone of
        JStr s \<Rightarrow>
          (let cleaned = stripNonDigits s
           in if length cleaned = 10
              then Inr (JStr (''('' @ take 3 cleaned @ '') '' @ take 3 (drop 3 cleaned) @ ''-'' @ drop 6 cleaned))
              else if length cleaned = 11 \<and> cleaned ! 0 = CHR ''1''
              then Inr (JStr (''+1 ('' @ take 3 (drop 1 cleaned) @ '') '' @ take 3 (drop 4 cleaned)
                                @ ''-'' @ drop 7 cleaned))
              else Inr phone)
      | _ \<Rightarrow> Inl TypeError)"

definition normalizeEmail :: "jsval \<Rightarrow> jserr + jsval" where
  "normalizeEmail email =
     (if \<not> truthy email then Inr email
      else case email of JStr s \<Rightarrow> Inr (JStr (trim (toLowerCase s))) | _ \<Rightarrow> Inl TypeError)"

text \<open>The \<^verbatim>\<open>RangeError\<close> of \<^verbatim>\<open>toISOString\<close> is caught inside \<^verbatim>\<open>formatDate\<close>.\<close>

definition formatDate :: "builtins \<Rightarrow> jsval \<Rightarrow> jserr + jsval" where
  "formatDate B dateValue =
     (if \<not> truthy dateValue then Inr dateValue
      else case isoDate B dateValue of Some d \<Rightarrow> Inr (JStr d) | None \<Rightarrow> Inr dateValue)"

definition formatCurrency :: "builtins \<Rightarrow> jsval \<Rightarrow> jserr + jsval" where
  "formatCurrency B amount =
     (if \<not> truthy amount then Inr amount
      else (let numAmount = parseFloat B amount
            in if numAmount = NaN then Inr amount else Inr (JNum (roundCents B numAmount))))"

definition normalizeName :: "jsval \<Rightarrow> jserr + jsval" where
  "normalizeName name =
     (if \<not> truthy name then Inr name
      else case name of JStr s \<Rightarrow> Inr (JStr (collapseSpaces (trim s))) | _ \<Rightarrow> Inl TypeError)"

text \<open>
  \<^verbatim>\<open>applyTransformation\<close> switches on the rule string inside a \<^verbatim>\<open>try\<close>; its \<^verbatim>\<open>catch\<close>
  returns the value it was given.
\<close>

definition applyTransformation :: "builtins \<Rightarrow> jsval \<Rightarrow> string \<Rightarrow> jserr + jsval" where
  "applyTransformation B v rule =
     (if \<not> truthy v then Inr v
      else (let attempt =
                 (if rule = ''formatPhone(value)'' then formatPhone v
                  else if rule = ''normalizeEmail(value)'' then normalizeEmail v
                  else if rule = ''formatDate(value)'' then formatDate B v
                  else if rule = ''formatCurrency(value)'' then formatCurrency B v
                  else if rule = ''normalizeName(value)'' then normalizeName v
                  else Inr v)
            in case attempt of Inr r \<Rightarrow> Inr r | Inl e \<Rightarrow> Inr v))"

section \<open>Field Mapper\<close>

text \<open>
  A record is a JavaScript object: its own properties in insertion order. Reading a
  property that is not there gives \<^verbatim>\<open>undefined\<close>; an assignment replaces the value in
  place or appends the property. Field names are ordinary names: the properties that
  every object inherits from \<^verbatim>\<open>Object.prototype\<close> (\<^verbatim>\<open>__proto__\<close>, \<^verbatim>\<open>constructor\<close>, ...) and
  integer-like names, which JavaScript orders first, are outside this model.
\<close>

type_synonym jsobject = "(string \<times> jsval) list"

definition getProp :: "jsobject \<Rightarrow> string \<Rightarrow> jsval" where
  "getProp obj k = (case map_of obj k of None \<Rightarrow> JUndefined | Some v \<Rightarrow> v)"

definition setProp :: "jsobject \<Rightarrow> string \<Rightarrow> jsval \<Rightarrow> jsobject" where
  "setProp obj k v = AList.update k v obj"

record fieldMapping =
  sourceField :: string
  targetField :: string
  transformationRule :: "string option"

text \<open>
  One turn of the loop of \<^verbatim>\<open>applyFieldMappings\<close>. The source record may be \<^verbatim>\<open>null\<close> or
  \<^verbatim>\<open>undefined\<close> (\<open>None\<close>): then \<^verbatim>\<open>sourceRecord[mapping.sourceField]\<close> raises a
  \<^verbatim>\<open>TypeError\<close>, and the \<^verbatim>\<open>catch\<close> block, which reads the same property again, raises it
  anew, so the error leaves the function. An error of \<^verbatim>\<open>applyTransformation\<close> is caught
  and the untransformed value stored.
\<close>

definition mapOneField :: "builtins \<Rightarrow> jsobject option \<Rightarrow> jsobject \<Rightarrow> fieldMapping \<Rightarrow> jserr + jsobject" where
  "mapOneField B sourceRecord mappedRecord mapping =
     (case sourceRecord of
        None \<Rightarrow> Inl TypeError
      | Some r \<Rightarrow>
          (let sourceValue = getProp r (sourceField mapping);
               untransformed = Inr (setProp mappedRecord (targetField mapping) sourceValue)
           in case transformationRule mapping of
                None \<Rightarrow> untransformed
              | Some rule \<Rightarrow>
                  if rule \<noteq> [] \<and> \<not> nullish sourceValue
                  then (case applyTransformation B sourceValue rule of
                          Inr v \<Rightarrow> Inr (setProp mappedRecord (targetField mapping) v)
                        | Inl e \<Rightarrow> untransformed)
                  else untransformed))"

fun mapFields :: "builtins \<Rightarrow> jsobject option \<Rightarrow> jsobject \<Rightarrow> fieldMapping list \<Rightarrow> jserr + jsobject" where
  "mapFields B sourceRecord mappedRecord [] = Inr mappedRecord"
| "mapFields B sourceRecord mappedRecord (mapping # rest) =
     (case mapOneField B sourceRecord mappedRecord mapping of
        Inl e \<Rightarrow> Inl e
      | Inr mappedRecord' \<Rightarrow> mapFields B sourceRecord mappedRecord' rest)"

definition applyFieldMappings :: "builtins \<Rightarrow> jsobject option \<Rightarrow> fieldMapping list \<Rightarrow> jserr + jsobject" where
  "applyFieldMappings B sourceRecord fieldMappings = mapFields B sourceRecord [] fieldMappings"

section \<open>Similarity Scorer (\<^verbatim>\<open>aiService.js\<close>)\<close>

text \<open>
  \<^verbatim>\<open>calculateLevenshteinDistance\<close> fills a matrix with one row for each prefix of \<open>str2\<close>
  and one column for each prefix of \<open>str1\<close>. Row 0 is \<open>0, 1, ..., length str1\<close>; row \<open>i\<close>
  starts with \<open>i\<close>. \<open>fillRow c str1 prevRow left\<close> computes the cells of one row from the
  second column on: \<open>prevRow\<close> is the row above from the column to the left of the
  current cell, \<open>left\<close> the cell just computed.
\<close>

fun fillRow :: "char \<Rightarrow> string \<Rightarrow> nat list \<Rightarrow> nat \<Rightarrow> nat list" where
  "fillRow c (x # xs) (diag # up # prevRow) left =
     (let cell = (if c = x then diag else min (diag + 1) (min (left + 1) (up + 1)))
      in cell # fillRow c xs (up # prevRow) cell)"
| "fillRow c xs prevRow left = []"

fun fillRows :: "string \<Rightarrow> string \<Rightarrow> nat \<Rightarrow> nat list \<Rightarrow> nat list" where
  "fillRows str1 [] i row = row"
| "fillRows str1 (c # cs) i row = fillRows str1 cs (i + 1) (i # fillRow c str1 row i)"

definition calculateLevenshteinDistance :: "string \<Rightarrow> string \<Rightarrow> nat" where
  "calculateLevenshteinDistance str1 str2 = last (fillRows str1 str2 1 [0 ..< length str1 + 1])"

text \<open>
  The score is a double. The literals \<^verbatim>\<open>0.95\<close> and \<^verbatim>\<open>0.8\<close> are the doubles nearest to
  them, and each arithmetic operation rounds its exact result. In the last branch
  \<open>maxLength\<close> is positive, since two empty names match exactly.
\<close>

definition calculateFieldSimilarity :: "string \<Rightarrow> string \<Rightarrow> string list \<Rightarrow> string list \<Rightarrow> rat" where
  "calculateFieldSimilarity sourceField' targetField' sourcePossibleMatches targetPossibleMatches =
     (let s = toLowerCase sourceField'; t = toLowerCase targetField';
          confidence =
            (if s = t then 1
             else if list_ex (\<lambda>match. toLowerCase match = t) sourcePossibleMatches then dbl (95 / 100)
             else if list_ex (\<lambda>match. toLowerCase match = s) targetPossibleMatches then dbl (95 / 100)
             else if jsIncludes s t \<or> jsIncludes t s then dbl (8 / 10)
             else (let distance = calculateLevenshteinDistance s t;
                       maxLength = max (length sourceField') (length targetField')
                   in max 0 (dbl (1 - dbl (of_nat distance / of_nat maxLength)))))
      in dbl (of_int (mathRound (dbl (confidence * 100))) / 100))"

section \<open>Conflict Resolver (\<^verbatim>\<open>aiService.js\<close>)\<close>

text \<open>
  A conflict is an object with the properties \<^verbatim>\<open>field\<close>, \<^verbatim>\<open>sourceValue\<close>, \<^verbatim>\<open>targetValue\<close>,
  \<^verbatim>\<open>type\<close> and \<^verbatim>\<open>dataType\<close>. A value property that is missing reads as \<^verbatim>\<open>undefined\<close>; a
  missing \<^verbatim>\<open>dataType\<close> is \<open>None\<close>.
\<close>

record conflict =
  field :: string
  sourceValue :: jsval
  targetValue :: jsval
  conflictType :: string
  dataType :: "string option"

text \<open>
  The rule table \<^verbatim>\<open>conflictResolutionRules.dataTypes\<close>: for each data type the functions
  \<^verbatim>\<open>merge\<close>, \<^verbatim>\<open>source_wins\<close>, \<^verbatim>\<open>target_wins\<close> and \<^verbatim>\<open>latest_wins\<close>. Each takes up to four
  arguments \<^verbatim>\<open>(source, target, sourceTime, targetTime)\<close>.
\<close>

type_synonym resolutionMethod = "jsval \<Rightarrow> jsval \<Rightarrow> jsval \<Rightarrow> jsval \<Rightarrow> jsval"

definition source_wins :: resolutionMethod where
  "source_wins source target sourceTime targetTime = source"

definition target_wins :: resolutionMethod where
  "target_wins source target sourceTime targetTime = target"

definition latest_wins :: "builtins \<Rightarrow> resolutionMethod" where
  "latest_wins B source target sourceTime targetTime =
     (if jsGreater B sourceTime targetTime then source else target)"

definition mergeString :: "builtins \<Rightarrow> resolutionMethod" where
  "mergeString B source target sourceTime targetTime =
     (if truthy source \<and> truthy target
      then JStr (toStringJS B source @ '' | '' @ toStringJS B target)
      else jsOr source target)"

definition mergeNumber :: "builtins \<Rightarrow> resolutionMethod" where
  "mergeNumber B source target sourceTime targetTime =
     JNum (mathMax B (jsOr source (JNum (Fin 0))) (jsOr target (JNum (Fin 0))))"

definition mergeDate :: "builtins \<Rightarrow> resolutionMethod" where
  "mergeDate B source target sourceTime targetTime =
     (if jsGreater B source target then source else target)"

definition mergeBoolean :: resolutionMethod where
  "mergeBoolean source target sourceTime targetTime = jsOr source target"

text \<open>The own properties of the four tables, and of \<^verbatim>\<open>dataTypes\<close> itself.\<close>

definition stringRules :: "builtins \<Rightarrow> string \<Rightarrow> resolutionMethod option" where
  "stringRules B = map_of [(''merge'', mergeString B), (''source_wins'', source_wins),
                           (''target_wins'', target_wins), (''latest_wins'', latest_wins B)]"

definition numberRules :: "builtins \<Rightarrow> string \<Rightarrow> resolutionMethod option" where
  "numberRules B = map_of [(''merge'', mergeNumber B), (''source_wins'', source_wins),
                           (''target_wins'', target_wins), (''latest_wins'', latest_wins B)]"

definition dateRules :: "builtins \<Rightarrow> string \<Rightarrow> resolutionMethod option" where
  "dateRules B = map_of [(''merge'', mergeDate B), (''source_wins'', source_wins),
                         (''target_wins'', target_wins), (''latest_wins'', latest_wins B)]"

definition booleanRules :: "builtins \<Rightarrow> string \<Rightarrow> resolutionMethod option" where
  "booleanRules B = map_of [(''merge'', mergeBoolean), (''source_wins'', source_wins),
                            (''target_wins'', target_wins), (''latest_wins'', latest_wins B)]"

definition dataTypes :: "builtins \<Rightarrow> string \<Rightarrow> (string \<Rightarrow> resolutionMethod option) option" where
  "dataTypes B = map_of
     [(''String'', stringRules B), (''Number'', numberRules B), (''Date'', dateRules B),
      (''Boolean'', booleanRules B)]"

definition fieldPriority :: "string \<Rightarrow> string option" where
  "fieldPriority = map_of
     [(''Email'', ''high''), (''Phone'', ''high''), (''Name'', ''high''), (''Amount'', ''high''),
      (''CloseDate'', ''high''), (''Description'', ''medium''), (''Notes'', ''low'')]"

text \<open>
  \<^verbatim>\<open>dataTypes[dataType]?.[name] || dataTypes['String'][name]\<close> among the own properties:
  \<open>lookupMethod\<close> finds the rule when \<open>name\<close> is one of the four keys of the tables. No
  inherited property has a property of one of these four names, so an unknown data type,
  also one that names an inherited property of \<^verbatim>\<open>dataTypes\<close>, then leads to the table of
  \<^verbatim>\<open>String\<close>. For every other \<open>name\<close> the result is \<open>None\<close>, and what the code finds and
  calls is an inherited property or nothing: \<open>callRule\<close> takes the outcome of that call
  from the engine.
\<close>

definition lookupMethod :: "builtins \<Rightarrow> string \<Rightarrow> string \<Rightarrow> resolutionMethod option" where
  "lookupMethod B dataType' name =
     (case (case dataTypes B dataType' of None \<Rightarrow> None | Some table \<Rightarrow> table name) of
        Some m \<Rightarrow> Some m
      | None \<Rightarrow> (case dataTypes B ''String'' of None \<Rightarrow> None | Some table \<Rightarrow> table name))"

text \<open>\<^verbatim>\<open>resolutionMethod(sourceValue, targetValue)\<close>, with both time parameters \<^verbatim>\<open>undefined\<close>.\<close>

definition callRule :: "builtins \<Rightarrow> string \<Rightarrow> string \<Rightarrow> jsval \<Rightarrow> jsval \<Rightarrow> jserr + jsval" where
  "callRule B dataType' name source target =
     (case lookupMethod B dataType' name of
        Some resolutionMethod \<Rightarrow> Inr (resolutionMethod source target JUndefined JUndefined)
      | None \<Rightarrow> inheritedCall B dataType' name source target)"

text \<open>
  The pattern \<^verbatim>\<open>/^[^\s@]+@[^\s@]+\.[^\s@]+$/\<close>: a non-empty run of characters that are
  neither white space nor \<^verbatim>\<open>@\<close>, an \<^verbatim>\<open>@\<close>, and a second such run, up to the end of the
  string, with a dot that is neither its first nor its last character.
\<close>

definition plainChar :: "char \<Rightarrow> bool" where
  "plainChar c = (\<not> isSpace c \<and> c \<noteq> CHR ''@'')"

definition emailRegex :: "string \<Rightarrow> bool" where
  "emailRegex s =
     (takeWhile plainChar s \<noteq> [] \<and>
      (case dropWhile plainChar s of
         [] \<Rightarrow> False
       | c # domain \<Rightarrow> c = CHR ''@'' \<and> list_all plainChar domain \<and> CHR ''.'' \<in> set (butlast (tl domain))))"

definition validateEmail :: "builtins \<Rightarrow> jsval \<Rightarrow> bool" where
  "validateEmail B email = (if \<not> truthy email then False else emailRegex (toStringJS B email))"

text \<open>
  \<^verbatim>\<open>(v || '').replace(/\D/g, '').length\<close>: the number of digits of a string; a truthy value
  that is no string has no \<^verbatim>\<open>replace\<close>, which raises a \<^verbatim>\<open>TypeError\<close>.
\<close>

definition digitCount :: "jsval \<Rightarrow> jserr + nat" where
  "digitCount v = (case jsOr v (JStr []) of JStr s \<Rightarrow> Inr (length (stripNonDigits s)) | _ \<Rightarrow> Inl TypeError)"

definition resolveHighPriorityField :: "builtins \<Rightarrow> string \<Rightarrow> jsval \<Rightarrow> jsval \<Rightarrow> jserr + jsval" where
  "resolveHighPriorityField B field' sourceValue' targetValue' =
     (let emailChoice =
            (if jsIncludes field' ''Email''
             then (let sourceValid = validateEmail B sourceValue';
                       targetValid = validateEmail B targetValue'
                   in if sourceValid \<and> \<not> targetValid then Some sourceValue'
                      else if \<not> sourceValid \<and> targetValid then Some targetValue'
                      else if sourceValid \<and> targetValid
                      then Some (if lengthGe (jsLength sourceValue') (jsLength targetValue')
                                 then sourceValue' else targetValue')
                      else None)
             else None)
      in case emailChoice of
           Some v \<Rightarrow> Inr v
         | None \<Rightarrow>
             if jsIncludes field' ''Phone''
             then (case digitCount sourceValue' of
                     Inl e \<Rightarrow> Inl e
                   | Inr sourceDigits \<Rightarrow>
                       (case digitCount targetValue' of
                          Inl e \<Rightarrow> Inl e
                        | Inr targetDigits \<Rightarrow>
                            Inr (if targetDigits \<le> sourceDigits then sourceValue' else targetValue')))
             else if jsIncludes field' ''Name''
             then Inr (if lengthGe (jsLength (jsOr sourceValue' (JStr []))) (jsLength (jsOr targetValue' (JStr [])))
                       then sourceValue' else targetValue')
             else Inr sourceValue')"

text \<open>
  A resolution, without its \<^verbatim>\<open>reasoning\<close>, \<^verbatim>\<open>error\<close> and \<^verbatim>\<open>timestamp\<close> texts. The
  confidence is a double literal.
\<close>

record resolution =
  r_field :: string
  r_sourceValue :: jsval
  r_targetValue :: jsval
  resolvedValue :: jsval
  r_strategy :: string
  confidence :: rat
  resolved :: bool

text \<open>
  \<^verbatim>\<open>resolveIndividualConflict\<close>: the body of the \<^verbatim>\<open>try\<close> gives a value and a confidence or
  raises; the \<^verbatim>\<open>catch\<close> builds the fallback resolution. The rule is called with two
  arguments, so both time parameters are \<^verbatim>\<open>undefined\<close>.
\<close>

definition resolveIndividualConflict :: "builtins \<Rightarrow> conflict \<Rightarrow> string \<Rightarrow> resolution" where
  "resolveIndividualConflict B c strategy =
     (let dataType' = (case dataType c of None \<Rightarrow> ''String'' | Some d \<Rightarrow> d);
          attempt =
            (if strategy = ''ai-resolve''
             then (let priority = (case fieldPriority (field c) of None \<Rightarrow> ''medium'' | Some p \<Rightarrow> p)
                   in if priority = ''high''
                      then (case resolveHighPriorityField B (field c) (sourceValue c) (targetValue c) of
                              Inl e \<Rightarrow> Inl e
                            | Inr v \<Rightarrow> Inr (v, dbl (9 / 10)))
                      else (case callRule B dataType' ''merge'' (sourceValue c) (targetValue c) of
                              Inl e \<Rightarrow> Inl e
                            | Inr v \<Rightarrow> Inr (v, dbl (8 / 10))))
             else (case callRule B dataType' (replaceDash strategy) (sourceValue c) (targetValue c) of
                     Inl e \<Rightarrow> Inl e
                   | Inr v \<Rightarrow> Inr (v, dbl (7 / 10))))
      in case attempt of
           Inr (v, conf) \<Rightarrow>
             \<lparr>r_field = field c, r_sourceValue = sourceValue c, r_targetValue = targetValue c,
              resolvedValue = v, r_strategy = strategy, confidence = conf, resolved = True\<rparr>
         | Inl e \<Rightarrow>
             \<lparr>r_field = field c, r_sourceValue = sourceValue c, r_targetValue = targetValue c,
              resolvedValue = sourceValue c, r_strategy = ''fallback'', confidence = dbl (1 / 2),
              resolved = False\<rparr>)"

definition calculateOverallConfidence :: "resolution list \<Rightarrow> rat" where
  "calculateOverallConfidence resolutions =
     (if length resolutions = 0 then 0
      else (let totalConfidence = foldl (\<lambda>sum r. dbl (sum + confidence r)) 0 resolutions
            in dbl (of_int (mathRound (dbl (dbl (totalConfidence / of_nat (length resolutions)) * 100))) / 100)))"

record resolutionBatch =
  b_strategy :: string
  totalConflicts :: nat
  resolvedConflicts :: nat
  resolutions :: "resolution list"
  overallConfidence :: rat

text \<open>
  \<^verbatim>\<open>resolveConflicts\<close> on an array of conflict objects. Its own \<^verbatim>\<open>catch\<close> is reached only
  when an entry of the array is \<^verbatim>\<open>null\<close> or \<^verbatim>\<open>undefined\<close>, which no caller passes.
\<close>

definition resolveConflicts :: "builtins \<Rightarrow> conflict list \<Rightarrow> string \<Rightarrow> resolutionBatch" where
  "resolveConflicts B conflicts' resolutionStrategy =
     (let rs = map (\<lambda>c. resolveIndividualConflict B c resolutionStrategy) conflicts'
      in \<lparr>b_strategy = resolutionStrategy, totalConflicts = length conflicts',
          resolvedConflicts = length (filter resolved rs), resolutions = rs,
          overallConfidence = calculateOverallConfidence rs\<rparr>)"

section \<open>Batch Sync Engine (\<^verbatim>\<open>integrationService.js\<close>)\<close>

record org =
  orgName :: string
  loginUrl :: string

record settings =
  conflictResolution :: "string option"

record integration =
  sourceOrg :: "org option"
  targetOrg :: "org option"
  fieldMappings :: "fieldMapping list"
  syncSettings :: "settings option"

text \<open>
  \<^verbatim>\<open>detectConflicts\<close> and \<^verbatim>\<open>syncToTarget\<close> are simulations driven by \<^verbatim>\<open>Math.random()\<close>. The
  draws made while one record is processed are an input of the model: whether
  \<^verbatim>\<open>Math.random() < 0.15\<close> held in \<^verbatim>\<open>detectConflicts\<close>, and whether \<^verbatim>\<open>syncToTarget\<close> threw
  (\<^verbatim>\<open>Math.random() < 0.05\<close>), with the message of the error it threw.
\<close>

record draws =
  conflictRoll :: bool
  writeError :: "string option"

definition getFieldDataType :: "string \<Rightarrow> string" where
  "getFieldDataType fieldName =
     (let fieldName_lower = toLowerCase fieldName
      in if jsIncludes fieldName_lower ''email'' then ''String''
         else if jsIncludes fieldName_lower ''phone'' then ''String''
         else if jsIncludes fieldName_lower ''date'' then ''Date''
         else if jsIncludes fieldName_lower ''amount'' \<or> jsIncludes fieldName_lower ''revenue'' then ''Number''
         else if jsIncludes fieldName_lower ''active'' \<or> jsIncludes fieldName_lower ''flag'' then ''Boolean''
         else ''String'')"

text \<open>The conflict fields are the first two keys of the mapped record whose value is truthy.\<close>

definition detectConflicts :: "builtins \<Rightarrow> jsobject \<Rightarrow> bool \<Rightarrow> conflict list" where
  "detectConflicts B mappedRecord roll =
     (if roll
      then map (\<lambda>(f, v). \<lparr>field = f, sourceValue = v,
                            targetValue = JStr (''existing_'' @ toStringJS B v),
                            conflictType = ''DATA_CONFLICT'',
                            dataType = Some (getFieldDataType f)\<rparr>)
               (filter (\<lambda>(f, v). truthy v) (take 2 mappedRecord))
      else [])"

definition applyConflictResolution :: "jsobject \<Rightarrow> resolutionBatch \<Rightarrow> jsobject" where
  "applyConflictResolution mappedRecord resolution' =
     foldl (\<lambda>m fieldResolution.
              if resolved fieldResolution
              then setProp m (r_field fieldResolution) (resolvedValue fieldResolution)
              else m)
       mappedRecord (resolutions resolution')"

definition syncToTarget :: "jsobject \<Rightarrow> draws \<Rightarrow> jserr + unit" where
  "syncToTarget mappedRecord d =
     (case writeError d of Some msg \<Rightarrow> Inl (Thrown msg) | None \<Rightarrow> Inr ())"

text \<open>
  An entry of an \<^verbatim>\<open>errors\<close> array: \<^verbatim>\<open>{recordId, error}\<close> pushed by \<^verbatim>\<open>processBatch\<close> for
  one record, or \<^verbatim>\<open>{batch, error, recordCount}\<close> pushed by \<^verbatim>\<open>performSync\<close> for a batch.
\<close>

datatype syncError = RecordError jsval jserr | BatchError nat jserr nat

record batchResults =
  successful :: nat
  failed :: nat
  b_conflicts :: nat
  b_errors :: "syncError list"

text \<open>
  The body of the \<^verbatim>\<open>try\<close> in the loop of \<^verbatim>\<open>processBatch\<close>, for one record: what it adds
  to \<^verbatim>\<open>results.conflicts\<close> before it ends, and whether it ends normally or by an error.
  The entity and sentiment analysis of the record cannot fail; its result is stored as
  \<^verbatim>\<open>_aiEnhancement\<close>. Reading \<^verbatim>\<open>integration.syncSettings.conflictResolution\<close> raises a
  \<^verbatim>\<open>TypeError\<close> when the integration has no \<^verbatim>\<open>syncSettings\<close>; a missing strategy makes
  \<^verbatim>\<open>resolveConflicts\<close> use its default \<^verbatim>\<open>'ai-resolve'\<close>.
\<close>

definition processRecord :: "builtins \<Rightarrow> integration \<Rightarrow> jsobject option \<Rightarrow> draws \<Rightarrow> nat \<times> (jserr + unit)" where
  "processRecord B integ record' d =
     (case applyFieldMappings B record' (fieldMappings integ) of
        Inl e \<Rightarrow> (0, Inl e)
      | Inr mapped \<Rightarrow>
          (let mappedRecord = setProp mapped ''_aiEnhancement'' JObject;
               conflicts' = detectConflicts B mappedRecord (conflictRoll d)
           in if length conflicts' > 0
              then (case syncSettings integ of
                      None \<Rightarrow> (0, Inl TypeError)
                    | Some st \<Rightarrow>
                        (let resolution' = resolveConflicts B conflicts'
                               (case conflictResolution st of None \<Rightarrow> ''ai-resolve'' | Some s \<Rightarrow> s)
                         in if resolvedConflicts resolution' > 0
                            then (length conflicts',
                                  syncToTarget (applyConflictResolution mappedRecord resolution') d)
                            else (0, syncToTarget mappedRecord d)))
              else (0, syncToTarget mappedRecord d)))"

text \<open>
  The loop of \<^verbatim>\<open>processBatch\<close>. Its \<^verbatim>\<open>catch\<close> block reads \<^verbatim>\<open>record.Id\<close>: for a record that is
  \<^verbatim>\<open>null\<close> or \<^verbatim>\<open>undefined\<close> this raises a \<^verbatim>\<open>TypeError\<close> inside the handler, which ends
  \<^verbatim>\<open>processBatch\<close> as a whole.
\<close>

fun processRecords :: "builtins \<Rightarrow> integration \<Rightarrow> (jsobject option \<times> draws) list \<Rightarrow> batchResults \<Rightarrow> jserr + batchResults" where
  "processRecords B integ [] results = Inr results"
| "processRecords B integ ((record', d) # rest) results =
     (case processRecord B integ record' d of
        (n, Inr u) \<Rightarrow>
          processRecords B integ rest
            (results\<lparr>b_conflicts := b_conflicts results + n, successful := successful results + 1\<rparr>)
      | (n, Inl error) \<Rightarrow>
          (case record' of
             None \<Rightarrow> Inl TypeError
           | Some r \<Rightarrow>
               processRecords B integ rest
                 (results\<lparr>b_conflicts := b_conflicts results + n, failed := failed results + 1,
                          b_errors := b_errors results @ [RecordError (getProp r ''Id'') error]\<rparr>)))"

definition processBatch :: "builtins \<Rightarrow> integration \<Rightarrow> (jsobject option \<times> draws) list \<Rightarrow> jserr + batchResults" where
  "processBatch B integ batch =
     processRecords B integ batch \<lparr>successful = 0, failed = 0, b_conflicts = 0, b_errors = []\<rparr>"

text \<open>
  \<^verbatim>\<open>createBatches\<close> advances by \<open>batchSize\<close>; with \<open>batchSize = 0\<close> and a non-empty array
  its loop never ends, which is the result \<open>None\<close>.
\<close>

function createBatches :: "'a list \<Rightarrow> nat \<Rightarrow> 'a list list option" where
  "createBatches array batchSize =
     (if array = [] then Some []
      else if batchSize = 0 then None
      else map_option ((#) (take batchSize array)) (createBatches (drop batchSize array) batchSize))"
  by pat_completeness auto
termination
  by (relation "measure (\<lambda>(array, batchSize). length array)") auto

declare createBatches.simps [simp del]

definition validateIntegrationConfig :: "integration \<Rightarrow> jserr + unit" where
  "validateIntegrationConfig integ =
     (case sourceOrg integ of
        None \<Rightarrow> Inl (Thrown ''Integration configuration missing required field: sourceOrg'')
      | Some so \<Rightarrow>
          (case targetOrg integ of
             None \<Rightarrow> Inl (Thrown ''Integration configuration missing required field: targetOrg'')
           | Some to \<Rightarrow>
               if loginUrl so = [] \<or> loginUrl to = []
               then Inl (Thrown ''Source and target org login URLs are required'')
               else if length (fieldMappings integ) = 0
               then Inl (Thrown ''At least one field mapping is required'')
               else Inr ()))"

text \<open>The accumulator \<^verbatim>\<open>results\<close> of \<^verbatim>\<open>performSync\<close>, without the wall-clock \<^verbatim>\<open>processingTime\<close>.\<close>

record syncResults =
  totalRecords :: nat
  processedRecords :: nat
  successfulRecords :: nat
  failedRecords :: nat
  conflicts :: nat
  errors :: "syncError list"
  successRate :: jsval

text \<open>The loop over the batches; \<open>i\<close> is the index of the first batch of the list.\<close>

fun processBatches :: "builtins \<Rightarrow> integration \<Rightarrow> nat \<Rightarrow> (jsobject option \<times> draws) list list \<Rightarrow> syncResults \<Rightarrow> syncResults" where
  "processBatches B integ i [] results = results"
| "processBatches B integ i (batch # rest) results =
     processBatches B integ (i + 1) rest
       (case processBatch B integ batch of
          Inr batchResult \<Rightarrow>
            results\<lparr>processedRecords := processedRecords results + length batch,
                    successfulRecords := successfulRecords results + successful batchResult,
                    failedRecords := failedRecords results + failed batchResult,
                    conflicts := conflicts results + b_conflicts batchResult,
                    errors := errors results @ b_errors batchResult\<rparr>
        | Inl batchError \<Rightarrow>
            results\<lparr>failedRecords := failedRecords results + length batch,
                    errors := errors results @ [BatchError (i + 1) batchError (length batch)]\<rparr>)"

text \<open>The object that \<^verbatim>\<open>performSync\<close> throws when the run fails.\<close>

datatype syncFailure = SyncFailure jserr

text \<open>
  \<^verbatim>\<open>performSync\<close>. The authentication and the query of the source are simulations that
  succeed on every validated configuration; the records that \<^verbatim>\<open>querySourceData\<close> returns,
  each with the draws of its processing, are the argument \<open>sourceData\<close>. The result
  \<open>None\<close> stands for a run that does not return.
\<close>

definition performSync :: "builtins \<Rightarrow> integration \<Rightarrow> (jsobject option \<times> draws) list \<Rightarrow> (syncFailure + syncResults) option" where
  "performSync B integ sourceData =
     (case validateIntegrationConfig integ of
        Inl error \<Rightarrow> Some (Inl (SyncFailure error))
      | Inr u \<Rightarrow>
          (case createBatches sourceData 50 of
             None \<Rightarrow> None
           | Some batches \<Rightarrow>
               (let results = processBatches B integ 0 batches
                      \<lparr>totalRecords = length sourceData, processedRecords = 0, successfulRecords = 0,
                       failedRecords = 0, conflicts = 0, errors = [], successRate = JUndefined\<rparr>
                in Some (Inr (results\<lparr>successRate :=
                     (if totalRecords results > 0
                      then JStr (toFixed2 (dbl (dbl (of_nat (successfulRecords results)
                                                     / of_nat (totalRecords results)) * 100)))
                      else JNum (Fin 0))\<rparr>)))))"

section \<open>Auxiliary definitions for the proofs\<close>

text \<open>
  The value that one turn of the loop of \<^verbatim>\<open>applyFieldMappings\<close> stores under the target
  field, for a source record that is an object.
\<close>

definition fieldValue :: "builtins \<Rightarrow> jsobject \<Rightarrow> fieldMapping \<Rightarrow> jsval" where
  "fieldValue B r mapping =
     (let sourceValue = getProp r (sourceField mapping)
      in case transformationRule mapping of
           None \<Rightarrow> sourceValue
         | Some rule \<Rightarrow>
             if rule \<noteq> [] \<and> \<not> nullish sourceValue
             then (case applyTransformation B sourceValue rule of Inr v \<Rightarrow> v | Inl e \<Rightarrow> sourceValue)
             else sourceValue)"

text \<open>
  The cell \<^verbatim>\<open>matrix[i][j]\<close> of \<^verbatim>\<open>calculateLevenshteinDistance\<close>, by the recurrence that its
  loops follow: row \<open>i\<close> belongs to the first \<open>i\<close> characters of \<open>str2\<close>, column \<open>j\<close> to the
  first \<open>j\<close> characters of \<open>str1\<close>.
\<close>

fun cellOf :: "string \<Rightarrow> string \<Rightarrow> nat \<Rightarrow> nat \<Rightarrow> nat" where
  "cellOf str1 str2 0 j = j"
| "cellOf str1 str2 (Suc i) 0 = Suc i"
| "cellOf str1 str2 (Suc i) (Suc j) =
     (if str2 ! i = str1 ! j then cellOf str1 str2 i j
      else min (cellOf str1 str2 i j + 1)
             (min (cellOf str1 str2 (Suc i) j + 1) (cellOf str1 str2 i (Suc j) + 1)))"

text \<open>
  The \<^verbatim>\<open>{recordId, error}\<close> entries that \<^verbatim>\<open>processBatch\<close> pushes for the records of a batch
  that \<^verbatim>\<open>syncToTarget\<close> rejects, in order.
\<close>

definition recordFailures :: "(jsobject option \<times> draws) list \<Rightarrow> syncError list" where
  "recordFailures batch =
     concat (map (\<lambda>(record', d). case (record', writeError d) of
                                     (Some r, Some msg) \<Rightarrow> [RecordError (getProp r ''Id'') (Thrown msg)]
                                   | _ \<Rightarrow> []) batch)"

subsection \<open>Sample data\<close>

text \<open>
  The examples need an interpretation of the built-ins. This one answers as the engine
  does on arguments that are not numeric and not dates; the examples pass strings in
  direct mappings and do not depend on it. Of the inherited properties it knows one,
  \<^verbatim>\<open>Object.getOwnPropertyDescriptor\<close>, which the data type \<^verbatim>\<open>'constructor'\<close> reaches: called
  with two strings of which the second names no property of the first (it is not
  \<^verbatim>\<open>'length'\<close> and has a character that is no digit), it returns \<^verbatim>\<open>undefined\<close>. All other
  inherited calls are left to fail here; only one example makes one.
\<close>

definition sampleBuiltins :: builtins where
  "sampleBuiltins =
     \<lparr>numberToString = (\<lambda>n. ''NaN''), dateToString = (\<lambda>d. ''Invalid Date''),
      parseFloat = (\<lambda>v. NaN), isoDate = (\<lambda>v. None), roundCents = (\<lambda>x. x),
      mathMax = (\<lambda>a b. NaN), greater = (\<lambda>a b. False),
      inheritedCall = (\<lambda>dataType' name source target.
        if dataType' = ''constructor'' \<and> name = ''getOwnPropertyDescriptor''
        then (case (source, target) of
                (JStr x, JStr y) \<Rightarrow>
                  if y \<noteq> ''length'' \<and> list_ex (\<lambda>ch. \<not> isDigit ch) y then Inr JUndefined
                  else Inl TypeError
              | _ \<Rightarrow> Inl TypeError)
        else Inl TypeError)\<rparr>"

definition sampleIntegration :: integration where
  "sampleIntegration =
     \<lparr>sourceOrg = Some \<lparr>orgName = ''Source'', loginUrl = ''https://login.salesforce.com''\<rparr>,
      targetOrg = Some \<lparr>orgName = ''Target'', loginUrl = ''https://login.salesforce.com''\<rparr>,
      fieldMappings = [\<lparr>sourceField = ''Name'', targetField = ''Name'',
                        transformationRule = Some ''directMapping(value)''\<rparr>],
      syncSettings = Some \<lparr>conflictResolution = Some ''source-wins''\<rparr>\<rparr>"

definition sampleRecord :: jsobject where
  "sampleRecord = [(''Id'', JStr ''account_1''), (''Name'', JStr ''Tech Corp 1'')]"

text \<open>The draws of a record that is written, and of one that the target rejects.\<close>

definition written :: draws where
  "written = \<lparr>conflictRoll = False, writeError = None\<rparr>"

definition rejected :: draws where
  "rejected = \<lparr>conflictRoll = False, writeError = Some ''Target system error: DUPLICATE_VALUE''\<rparr>"

definition statusConflict :: conflict where
  "statusConflict =
     \<lparr>field = ''Status'', sourceValue = JStr ''Open'', targetValue = JStr ''Closed'',
      conflictType = ''DATA_CONFLICT'', dataType = Some ''String''\<rparr>"

text \<open>A conflict without a source value, and the conflict that \<^verbatim>\<open>detectUpdateConflicts\<close> reports.\<close>

definition nullSourceConflict :: conflict where
  "nullSourceConflict =
     \<lparr>field = ''Status'', sourceValue = JNull, targetValue = JStr ''Closed'',
      conflictType = ''DATA_CONFLICT'', dataType = Some ''String''\<rparr>"

definition updateConflict :: conflict where
  "updateConflict =
     \<lparr>field = ''LastModifiedDate'', sourceValue = JUndefined, targetValue = JUndefined,
      conflictType = ''UPDATE_CONFLICT'', dataType = None\<rparr>"

text \<open>A conflict whose data type names an inherited property of the rule table.\<close>

definition constructorConflict :: conflict where
  "constructorConflict =
     \<lparr>field = ''Status'', sourceValue = JStr ''Open'', targetValue = JStr ''Closed'',
      conflictType = ''DATA_CONFLICT'', dataType = Some ''constructor''\<rparr>"

definition picklistConflict :: conflict where
  "picklistConflict =
     \<lparr>field = ''Status'', sourceValue = JStr ''Open'', targetValue = JStr ''Closed'',
      conflictType = ''DATA_CONFLICT'', dataType = Some ''Picklist''\<rparr>"




text \<open>A resolution batch with one resolved and one unresolved entry.\<close>

definition sampleResolutions :: resolutionBatch where
  "sampleResolutions =
     \<lparr>b_strategy = ''target-wins'', totalConflicts = 2, resolvedConflicts = 1,
      resolutions =
        [\<lparr>r_field = ''Name'', r_sourceValue = JStr ''Tech Corp 1'', r_targetValue = JStr ''Tech Corp'',
          resolvedValue = JStr ''Tech Corp'', r_strategy = ''target-wins'', confidence = dbl (7 / 10),
          resolved = True\<rparr>,
         \<lparr>r_field = ''Id'', r_sourceValue = JStr ''account_1'', r_targetValue = JStr ''account_0'',
          resolvedValue = JStr ''account_1'', r_strategy = ''fallback'', confidence = dbl (1 / 2),
          resolved = False\<rparr>],
      overallConfidence = dbl (6 / 10)\<rparr>"

text \<open>
  Source data for three runs: a single \<^verbatim>\<open>null\<close> entry; three records of which the target
  rejects two; and 120 records of which the target rejects the 50 of the second batch.
\<close>

definition nullRun :: "(jsobject option \<times> draws) list" where
  "nullRun = [(None, written)]"

definition threeRecords :: "(jsobject option \<times> draws) list" where
  "threeRecords =
     [(Some sampleRecord, written), (Some sampleRecord, rejected), (Some sampleRecord, rejected)]"

definition scenario120 :: "(jsobject option \<times> draws) list" where
  "scenario120 =
     replicate 50 (Some sampleRecord, written) @ replicate 50 (Some sampleRecord, rejected)
     @ replicate 20 (Some sampleRecord, written)"

definition rejection :: syncError where
  "rejection = RecordError (JStr ''account_1'') (Thrown ''Target system error: DUPLICATE_VALUE'')"

text \<open>The batch number and record count of the batch-level entries of an \<^verbatim>\<open>errors\<close> array.\<close>

fun batchEntries :: "syncError list \<Rightarrow> (nat \<times> nat) list" where
  "batchEntries [] = []"
| "batchEntries (RecordError i e # es) = batchEntries es"
| "batchEntries (BatchError b e n # es) = (b, n) # batchEntries es"

section \<open>Transformer: lemmas\<close>

lemma applyTransformation_total: "\<exists>r. applyTransformation B v rule = Inr r"
  by (simp add: applyTransformation_def Let_def split: sum.splits)

lemma formatDate_total: "\<exists>r. formatDate B v = Inr r"
  by (simp add: formatDate_def split: option.splits)

lemma formatCurrency_total: "\<exists>r. formatCurrency B v = Inr r"
  by (simp add: formatCurrency_def Let_def)

lemma helpers_total_on_strings:
  "(\<exists>r. formatPhone (JStr s) = Inr r) \<and> (\<exists>r. normalizeEmail (JStr s) = Inr r) \<and>
   (\<exists>r. normalizeName (JStr s) = Inr r)"
  by (simp add: formatPhone_def normalizeEmail_def normalizeName_def Let_def)

lemma helpers_falsy:
  "\<not> truthy v \<Longrightarrow> formatPhone v = Inr v \<and> normalizeEmail v = Inr v \<and> normalizeName v = Inr v"
  by (simp add: formatPhone_def normalizeEmail_def normalizeName_def)

lemma helpers_raise_on_non_strings:
  "truthy v \<Longrightarrow> \<forall>s. v \<noteq> JStr s \<Longrightarrow>
   formatPhone v = Inl TypeError \<and> normalizeEmail v = Inl TypeError \<and> normalizeName v = Inl TypeError"
  by (cases v) (simp_all add: formatPhone_def normalizeEmail_def normalizeName_def)

lemma formatPhone_unchanged:
  "length (stripNonDigits s) \<noteq> 10 \<Longrightarrow>
   \<not> (length (stripNonDigits s) = 11 \<and> stripNonDigits s ! 0 = CHR ''1'') \<Longrightarrow>
   formatPhone (JStr s) = Inr (JStr s)"
  by (auto simp add: formatPhone_def Let_def)

lemma formatDate_unparsed: "isoDate B v = None \<Longrightarrow> formatDate B v = Inr v"
  by (simp add: formatDate_def)

lemma formatCurrency_unparsed: "parseFloat B v = NaN \<Longrightarrow> formatCurrency B v = Inr v"
  by (simp add: formatCurrency_def)

section \<open>Field Mapper: lemmas\<close>

lemma mapOneField_Some:
  "mapOneField B (Some r) acc m = Inr (setProp acc (targetField m) (fieldValue B r m))"
  by (simp add: mapOneField_def fieldValue_def Let_def split: option.splits sum.splits)

lemma mapFields_Some:
  "mapFields B (Some r) acc ms =
     Inr (foldl (\<lambda>a m. setProp a (targetField m) (fieldValue B r m)) acc ms)"
  by (induction ms arbitrary: acc) (simp_all add: mapOneField_Some)

lemma map_of_setProp: "map_of (setProp obj k v) k' = (if k' = k then Some v else map_of obj k')"
  by (simp add: setProp_def update_conv')



lemma applyFieldMappings_Some: "\<exists>m. applyFieldMappings B (Some r) ms = Inr m"
  by (simp add: applyFieldMappings_def mapFields_Some)

lemma applyFieldMappings_null: "ms \<noteq> [] \<Longrightarrow> applyFieldMappings B None ms = Inl TypeError"
  by (cases ms) (simp_all add: applyFieldMappings_def mapOneField_def)

lemma applyFieldMappings_empty: "applyFieldMappings B r [] = Inr []"
  by (simp add: applyFieldMappings_def)


lemma applyConflictResolution_frame:
  assumes "\<forall>res\<in>set (resolutions rb). resolved res \<longrightarrow> r_field res \<noteq> f"
  shows "map_of (applyConflictResolution m rb) f = map_of m f"
proof -
  have "\<forall>res\<in>set rs. resolved res \<longrightarrow> r_field res \<noteq> f \<Longrightarrow>
        map_of (foldl (\<lambda>m fieldResolution.
              if resolved fieldResolution
              then setProp m (r_field fieldResolution) (resolvedValue fieldResolution)
              else m) m rs) f = map_of m f" for rs
    by (induction rs arbitrary: m) (auto simp: map_of_setProp)
  with assms show ?thesis by (simp add: applyConflictResolution_def)
qed

section \<open>Similarity Scorer: lemmas\<close>

lemma cellOf_first_column [simp]: "cellOf str1 str2 i 0 = i"
  by (cases i) simp_all

lemma cellOf_sym: "cellOf str1 str2 i j = cellOf str2 str1 j i"
  by (induction str1 str2 i j rule: cellOf.induct) (auto simp: min.commute min.left_commute)

text \<open>One row of the matrix, computed from the row above, holds the cells of the recurrence.\<close>

lemma fillRow_cells:
  assumes "i < length str2" and "j \<le> length str1"
  shows "fillRow (str2 ! i) (drop j str1) (map (cellOf str1 str2 i) [j ..< length str1 + 1])
           (cellOf str1 str2 (Suc i) j)
         = map (cellOf str1 str2 (Suc i)) [j + 1 ..< length str1 + 1]"
  using assms(2)
proof (induction "length str1 - j" arbitrary: j)
  case 0
  then have "j = length str1" by simp
  then show ?case by simp
next
  case (Suc k)
  then have lt: "j < length str1" by simp
  have d: "drop j str1 = str1 ! j # drop (Suc j) str1"
    using lt by (simp add: Cons_nth_drop_Suc)
  have u: "[j ..< Suc (length str1)] = j # Suc j # [Suc (Suc j) ..< Suc (length str1)]"
    using lt by (simp add: upt_conv_Cons del: upt_Suc)
  have u1: "[Suc j ..< Suc (length str1)] = Suc j # [Suc (Suc j) ..< Suc (length str1)]"
    using lt by (simp add: upt_conv_Cons del: upt_Suc)
  have ih: "fillRow (str2 ! i) (drop (Suc j) str1) (map (cellOf str1 str2 i) [Suc j ..< length str1 + 1])
           (cellOf str1 str2 (Suc i) (Suc j))
         = map (cellOf str1 str2 (Suc i)) [Suc j + 1 ..< length str1 + 1]"
    using Suc.hyps(1) [of "Suc j"] Suc.hyps(2) lt by (simp del: upt_Suc)
  show ?case
    using ih by (simp add: d u u1 Let_def del: upt_Suc)
qed

lemma fillRows_cells:
  assumes "i \<le> length str2"
  shows "fillRows str1 (drop i str2) (i + 1) (map (cellOf str1 str2 i) [0 ..< length str1 + 1])
         = map (cellOf str1 str2 (length str2)) [0 ..< length str1 + 1]"
  using assms
proof (induction "length str2 - i" arbitrary: i)
  case 0
  then show ?case by simp
next
  case (Suc k)
  then have lt: "i < length str2" by simp
  have d: "drop i str2 = str2 ! i # drop (Suc i) str2"
    using lt by (simp add: Cons_nth_drop_Suc)
  have row: "(i + 1) # fillRow (str2 ! i) str1 (map (cellOf str1 str2 i) [0 ..< length str1 + 1]) (i + 1)
             = map (cellOf str1 str2 (Suc i)) [0 ..< length str1 + 1]"
    using fillRow_cells [OF lt, of 0] by (simp add: upt_conv_Cons del: upt_Suc)
  have "fillRows str1 (drop (Suc i) str2) (Suc i + 1) (map (cellOf str1 str2 (Suc i)) [0 ..< length str1 + 1])
         = map (cellOf str1 str2 (length str2)) [0 ..< length str1 + 1]"
    using Suc.hyps(1) [of "Suc i"] Suc.hyps(2) lt by simp
  then show ?case using row by (simp add: d del: upt_Suc)
qed

lemma levenshtein_cell:
  "calculateLevenshteinDistance str1 str2 = cellOf str1 str2 (length str2) (length str1)"
proof -
  have "fillRows str1 str2 1 [0 ..< length str1 + 1]
        = map (cellOf str1 str2 (length str2)) [0 ..< length str1 + 1]"
    using fillRows_cells [of 0 str2 str1] by (simp del: upt_Suc add: map_idI)
  then show ?thesis
    by (simp add: calculateLevenshteinDistance_def last_map del: upt_Suc)
qed

lemma levenshtein_sym: "calculateLevenshteinDistance s t = calculateLevenshteinDistance t s"
  by (simp add: levenshtein_cell cellOf_sym)

lemma similarity_swap:
  "calculateFieldSimilarity a b aliasA aliasB = calculateFieldSimilarity b a aliasB aliasA"
  by (auto simp: calculateFieldSimilarity_def Let_def levenshtein_sym max.commute)

section \<open>Conflict Resolver: lemmas\<close>

lemma replaceDash_strategies [simp]:
  "replaceDash ''source-wins'' = ''source_wins''"
  "replaceDash ''target-wins'' = ''target_wins''"
  "replaceDash ''latest-wins'' = ''latest_wins''"
  by simp_all

lemmas rule_tables = stringRules_def numberRules_def dateRules_def booleanRules_def

lemma stringRules_entries:
  "stringRules B ''merge'' = Some (mergeString B)"
  "stringRules B ''source_wins'' = Some source_wins"
  "stringRules B ''target_wins'' = Some target_wins"
  "stringRules B ''latest_wins'' = Some (latest_wins B)"
  by (simp_all add: stringRules_def)

lemma lookup_latest: "lookupMethod B d ''latest_wins'' = Some (latest_wins B)"
  by (simp add: lookupMethod_def dataTypes_def rule_tables split: option.splits)

lemma lookup_source: "lookupMethod B d ''source_wins'' = Some source_wins"
  by (simp add: lookupMethod_def dataTypes_def rule_tables split: option.splits)

lemma lookup_target: "lookupMethod B d ''target_wins'' = Some target_wins"
  by (simp add: lookupMethod_def dataTypes_def rule_tables split: option.splits)

lemma lookup_merge: "\<exists>m. lookupMethod B d ''merge'' = Some m"
  by (simp add: lookupMethod_def dataTypes_def rule_tables split: option.splits)

text \<open>The four rule names are found in every table, whatever the data type.\<close>

lemma lookup_own_key:
  assumes "name \<in> {''merge'', ''source_wins'', ''target_wins'', ''latest_wins''}"
  shows "\<exists>m. lookupMethod B d name = Some m"
  using assms lookup_merge [of B d]
  by (auto simp: lookup_latest lookup_source lookup_target)

lemma call_own_key:
  assumes "name \<in> {''merge'', ''source_wins'', ''target_wins'', ''latest_wins''}"
  shows "\<exists>m. lookupMethod B d name = Some m \<and>
             callRule B d name s t = Inr (m s t JUndefined JUndefined)"
proof -
  obtain m where "lookupMethod B d name = Some m" using lookup_own_key [OF assms] by blast
  then show ?thesis by (simp add: callRule_def)
qed

lemma call_latest: "callRule B d ''latest_wins'' s t = Inr (latest_wins B s t JUndefined JUndefined)"
  by (simp add: callRule_def lookup_latest)

lemma call_source: "callRule B d ''source_wins'' s t = Inr s"
  by (simp add: callRule_def lookup_source source_wins_def)

lemma call_target: "callRule B d ''target_wins'' s t = Inr t"
  by (simp add: callRule_def lookup_target target_wins_def)

lemma dataTypes_unknown:
  "d \<notin> {''String'', ''Number'', ''Date'', ''Boolean''} \<Longrightarrow> dataTypes B d = None"
  by (simp add: dataTypes_def)

lemma lookup_String: "lookupMethod B ''String'' name = stringRules B name"
  by (simp add: lookupMethod_def dataTypes_def split: option.splits)

lemma lookup_unknown:
  "d \<notin> {''String'', ''Number'', ''Date'', ''Boolean''} \<Longrightarrow>
   lookupMethod B d name = lookupMethod B ''String'' name"
  by (simp add: lookupMethod_def dataTypes_unknown split: option.splits)

text \<open>
  A missing data type is the default \<^verbatim>\<open>'String'\<close>, and a data type without a table falls
  back: either way the look-up is in the table of \<^verbatim>\<open>String\<close>, also for the inherited
  names, because \<open>inheritedCall\<close> then describes the same object.
\<close>

lemma lookup_unknown_string:
  assumes "dataType c = None \<or>
           (\<exists>d. dataType c = Some d \<and> d \<notin> {''String'', ''Number'', ''Date'', ''Boolean''})"
  shows "lookupMethod B (case dataType c of None \<Rightarrow> ''String'' | Some d \<Rightarrow> d) name
           = stringRules B name"
  using assms by (auto simp: lookup_unknown lookup_String)

lemma call_unknown_string:
  assumes "dataType c = None \<or>
           (\<exists>d. dataType c = Some d \<and> d \<notin> {''String'', ''Number'', ''Date'', ''Boolean''})"
    and "stringRules B name = Some m"
  shows "callRule B (case dataType c of None \<Rightarrow> ''String'' | Some d \<Rightarrow> d) name s t
           = Inr (m s t JUndefined JUndefined)"
  by (simp add: callRule_def lookup_unknown_string [OF assms(1)] assms(2))

lemma call_String:
  assumes "stringRules B name = Some m"
  shows "callRule B ''String'' name s t = Inr (m s t JUndefined JUndefined)"
  by (simp add: callRule_def lookup_String assms)

lemma latest_wins_undefined: "latest_wins B s t JUndefined JUndefined = t"
  by (simp add: latest_wins_def jsGreater_def)

lemma latest_wins_resolution:
  "resolved (resolveIndividualConflict B c ''latest-wins'') \<and>
   resolvedValue (resolveIndividualConflict B c ''latest-wins'') = targetValue c"
  by (simp add: resolveIndividualConflict_def Let_def call_latest latest_wins_undefined)

text \<open>The resolution that a rule \<open>m\<close> of the table makes, with the confidence of its branch.\<close>

lemma rule_resolution:
  assumes "strategy \<noteq> ''ai-resolve''"
    and "callRule B (case dataType c of None \<Rightarrow> ''String'' | Some d \<Rightarrow> d) (replaceDash strategy)
           (sourceValue c) (targetValue c) = Inr v"
  shows "resolveIndividualConflict B c strategy =
           \<lparr>r_field = field c, r_sourceValue = sourceValue c, r_targetValue = targetValue c,
            resolvedValue = v, r_strategy = strategy, confidence = dbl (7 / 10), resolved = True\<rparr>"
  using assms by (simp add: resolveIndividualConflict_def Let_def)

lemma merge_resolution:
  assumes "fieldPriority (field c) \<noteq> Some ''high''"
    and "callRule B (case dataType c of None \<Rightarrow> ''String'' | Some d \<Rightarrow> d) ''merge''
           (sourceValue c) (targetValue c) = Inr v"
  shows "resolveIndividualConflict B c ''ai-resolve'' =
           \<lparr>r_field = field c, r_sourceValue = sourceValue c, r_targetValue = targetValue c,
            resolvedValue = v, r_strategy = ''ai-resolve'', confidence = dbl (8 / 10),
            resolved = True\<rparr>"
proof -
  have p: "(case fieldPriority (field c) of None \<Rightarrow> ''medium'' | Some p \<Rightarrow> p) \<noteq> ''high''"
    using assms(1) by (auto split: option.splits)
  show ?thesis using p assms(2) by (simp add: resolveIndividualConflict_def Let_def)
qed

text \<open>
  Without a table for the data type, the rule applied is the one that the table of
  \<^verbatim>\<open>String\<close> has under the strategy's name, the whole resolution is determined by it, and
  it is the resolution of the same conflict with the data type \<^verbatim>\<open>'String'\<close>.
\<close>

lemma unknown_type_falls_back:
  assumes dt: "dataType c = None \<or>
               (\<exists>d. dataType c = Some d \<and> d \<notin> {''String'', ''Number'', ''Date'', ''Boolean''})"
    and st: "strategy \<in> {''source-wins'', ''target-wins'', ''latest-wins''} \<or>
             (strategy = ''ai-resolve'' \<and> fieldPriority (field c) \<noteq> Some ''high'')"
  shows "(\<exists>m. stringRules B (if strategy = ''ai-resolve'' then ''merge'' else replaceDash strategy)
                = Some m \<and>
              resolveIndividualConflict B c strategy =
                \<lparr>r_field = field c, r_sourceValue = sourceValue c, r_targetValue = targetValue c,
                 resolvedValue = m (sourceValue c) (targetValue c) JUndefined JUndefined,
                 r_strategy = strategy,
                 confidence = (if strategy = ''ai-resolve'' then dbl (8 / 10) else dbl (7 / 10)),
                 resolved = True\<rparr>) \<and>
         resolvedValue (resolveIndividualConflict B c strategy) =
           (if strategy = ''source-wins'' then sourceValue c
            else if strategy = ''ai-resolve''
            then (if truthy (sourceValue c) \<and> truthy (targetValue c)
                  then JStr (toStringJS B (sourceValue c) @ '' | '' @ toStringJS B (targetValue c))
                  else jsOr (sourceValue c) (targetValue c))
            else targetValue c) \<and>
         resolveIndividualConflict B c strategy =
           resolveIndividualConflict B (c\<lparr>dataType := Some ''String''\<rparr>) strategy \<and>
         resolved (resolveIndividualConflict B c strategy)"
proof -
  let ?name = "if strategy = ''ai-resolve'' then ''merge'' else replaceDash strategy"
  let ?c' = "c\<lparr>dataType := Some ''String''\<rparr>"
  have own: "?name \<in> {''merge'', ''source_wins'', ''target_wins'', ''latest_wins''}"
    using st by auto
  then obtain m where m: "stringRules B ?name = Some m"
    by (auto simp: stringRules_entries)
  let ?v = "m (sourceValue c) (targetValue c) JUndefined JUndefined"
  let ?r = "\<lparr>r_field = field c, r_sourceValue = sourceValue c, r_targetValue = targetValue c,
             resolvedValue = ?v, r_strategy = strategy,
             confidence = (if strategy = ''ai-resolve'' then dbl (8 / 10) else dbl (7 / 10)),
             resolved = True\<rparr>"
  have call: "callRule B (case dataType c of None \<Rightarrow> ''String'' | Some d \<Rightarrow> d) ?name
                (sourceValue c) (targetValue c) = Inr ?v"
    by (rule call_unknown_string [OF dt m])
  have call': "callRule B (case dataType ?c' of None \<Rightarrow> ''String'' | Some d \<Rightarrow> d) ?name
                 (sourceValue ?c') (targetValue ?c') = Inr ?v"
    using call_String [OF m] by simp
  have r: "resolveIndividualConflict B c strategy = ?r"
  proof (cases "strategy = ''ai-resolve''")
    case True
    then have "fieldPriority (field c) \<noteq> Some ''high''" using st by auto
    from merge_resolution [OF this, of B ?v] call True show ?thesis by simp
  next
    case False
    from rule_resolution [OF False, of B c ?v] call False show ?thesis by simp
  qed
  have r': "resolveIndividualConflict B ?c' strategy = ?r"
  proof (cases "strategy = ''ai-resolve''")
    case True
    then have "fieldPriority (field ?c') \<noteq> Some ''high''" using st by auto
    from merge_resolution [OF this, of B ?v] call' True show ?thesis by simp
  next
    case False
    from rule_resolution [OF False, of B ?c' ?v] call' False show ?thesis by simp
  qed
  have v: "?v = (if strategy = ''source-wins'' then sourceValue c
            else if strategy = ''ai-resolve''
            then (if truthy (sourceValue c) \<and> truthy (targetValue c)
                  then JStr (toStringJS B (sourceValue c) @ '' | '' @ toStringJS B (targetValue c))
                  else jsOr (sourceValue c) (targetValue c))
            else targetValue c)"
  proof -
    consider (s) "strategy = ''source-wins''" | (t) "strategy = ''target-wins''"
      | (l) "strategy = ''latest-wins''" | (a) "strategy = ''ai-resolve''"
      using st by auto
    then show ?thesis
    proof cases
      case s
      with m have "m = source_wins" by (simp add: stringRules_entries)
      then show ?thesis using s by (simp add: source_wins_def)
    next
      case t
      with m have "m = target_wins" by (simp add: stringRules_entries)
      then show ?thesis using t by (simp add: target_wins_def)
    next
      case l
      with m have "m = latest_wins B" by (simp add: stringRules_entries)
      then show ?thesis using l by (simp add: latest_wins_undefined)
    next
      case a
      with m have "m = mergeString B" by (simp add: stringRules_entries)
      then show ?thesis using a by (simp add: mergeString_def)
    qed
  qed
  show ?thesis
  proof (intro conjI)
    show "\<exists>m. stringRules B ?name = Some m \<and>
              resolveIndividualConflict B c strategy =
                \<lparr>r_field = field c, r_sourceValue = sourceValue c, r_targetValue = targetValue c,
                 resolvedValue = m (sourceValue c) (targetValue c) JUndefined JUndefined,
                 r_strategy = strategy,
                 confidence = (if strategy = ''ai-resolve'' then dbl (8 / 10) else dbl (7 / 10)),
                 resolved = True\<rparr>"
      using m r by blast
    show "resolvedValue (resolveIndividualConflict B c strategy) =
           (if strategy = ''source-wins'' then sourceValue c
            else if strategy = ''ai-resolve''
            then (if truthy (sourceValue c) \<and> truthy (targetValue c)
                  then JStr (toStringJS B (sourceValue c) @ '' | '' @ toStringJS B (targetValue c))
                  else jsOr (sourceValue c) (targetValue c))
            else targetValue c)"
      using v by (simp add: r)
    show "resolveIndividualConflict B c strategy = resolveIndividualConflict B ?c' strategy"
      by (simp only: r r')
    show "resolved (resolveIndividualConflict B c strategy)"
      by (simp add: r)
  qed
qed

lemma jsOr_nonnull: "\<not> nullish a \<Longrightarrow> \<not> nullish b \<Longrightarrow> \<not> nullish (jsOr a b)"
  by (simp add: jsOr_def)

lemma method_nonnull:
  assumes "lookupMethod B d name = Some m" and "\<not> nullish s" and "\<not> nullish t"
  shows "\<not> nullish (m s t JUndefined JUndefined)"
proof -
  have "m \<in> {mergeString B, mergeNumber B, mergeDate B, mergeBoolean, source_wins, target_wins,
             latest_wins B}"
    using assms(1)
    by (auto simp: lookupMethod_def dataTypes_def rule_tables split: option.splits if_splits)
  then show ?thesis
    using assms(2,3) jsOr_nonnull [OF assms(2,3)]
    by (auto simp: mergeString_def mergeNumber_def mergeDate_def mergeBoolean_def source_wins_def
        target_wins_def latest_wins_def nullish_def split: if_splits)
qed

text \<open>A rule found under one of the four names returns neither \<^verbatim>\<open>null\<close> nor \<^verbatim>\<open>undefined\<close>.\<close>

lemma call_nonnull:
  assumes "name \<in> {''merge'', ''source_wins'', ''target_wins'', ''latest_wins''}"
    and "\<not> nullish s" and "\<not> nullish t"
  shows "\<exists>v. callRule B d name s t = Inr v \<and> \<not> nullish v"
proof -
  obtain m where m: "lookupMethod B d name = Some m"
    "callRule B d name s t = Inr (m s t JUndefined JUndefined)"
    using call_own_key [OF assms(1)] by blast
  show ?thesis using m(2) method_nonnull [OF m(1) assms(2,3)] by simp
qed

lemma high_priority_choice:
  "resolveHighPriorityField B f s t = Inr v \<Longrightarrow> v = s \<or> v = t"
  by (auto simp: resolveHighPriorityField_def Let_def split: if_splits option.splits sum.splits)

text \<open>
  The strategies that name a rule of the tables: \<^verbatim>\<open>ai-resolve\<close>, and those that
  \<^verbatim>\<open>replace('-', '_')\<close> turns into one of the four keys.
\<close>

lemma resolved_nonnull:
  assumes "\<not> nullish (sourceValue c)" and "\<not> nullish (targetValue c)"
    and st: "strategy = ''ai-resolve'' \<or>
             replaceDash strategy \<in> {''merge'', ''source_wins'', ''target_wins'', ''latest_wins''}"
    and "resolved (resolveIndividualConflict B c strategy)"
  shows "\<not> nullish (resolvedValue (resolveIndividualConflict B c strategy))"
proof (cases "strategy = ''ai-resolve''")
  case True
  obtain v where v: "callRule B (case dataType c of None \<Rightarrow> ''String'' | Some d \<Rightarrow> d) ''merge''
      (sourceValue c) (targetValue c) = Inr v" "\<not> nullish v"
    using call_nonnull [OF _ assms(1,2), of "''merge''"] by auto
  show ?thesis
    using True assms(1,2,4) v
    by (auto simp: resolveIndividualConflict_def Let_def split: if_splits sum.splits
        dest: high_priority_choice)
next
  case False
  then have "replaceDash strategy \<in> {''merge'', ''source_wins'', ''target_wins'', ''latest_wins''}"
    using st by simp
  from call_nonnull [OF this assms(1,2)]
  obtain v where v: "callRule B (case dataType c of None \<Rightarrow> ''String'' | Some d \<Rightarrow> d)
      (replaceDash strategy) (sourceValue c) (targetValue c) = Inr v" "\<not> nullish v"
    by blast
  show ?thesis using v(2) by (simp add: rule_resolution [OF False v(1)])
qed

lemma resolutions_nonnull:
  assumes "\<forall>c\<in>set cs. \<not> nullish (sourceValue c) \<and> \<not> nullish (targetValue c)"
    and "strategy = ''ai-resolve'' \<or>
         replaceDash strategy \<in> {''merge'', ''source_wins'', ''target_wins'', ''latest_wins''}"
  shows "\<forall>r\<in>set (resolutions (resolveConflicts B cs strategy)).
           resolved r \<longrightarrow> \<not> nullish (resolvedValue r)"
  using assms by (auto simp: resolveConflicts_def Let_def dest: resolved_nonnull)

text \<open>
  An inherited name is another matter: the data type \<^verbatim>\<open>'constructor'\<close> selects \<^verbatim>\<open>Object\<close>,
  whose \<^verbatim>\<open>getOwnPropertyDescriptor\<close> answers \<^verbatim>\<open>undefined\<close> on \<^verbatim>\<open>('Open', 'Closed')\<close>, and the
  resolution counts as resolved.
\<close>

lemma inherited_rule_resolution:
  "resolveIndividualConflict sampleBuiltins constructorConflict ''getOwnPropertyDescriptor'' =
     \<lparr>r_field = ''Status'', r_sourceValue = JStr ''Open'', r_targetValue = JStr ''Closed'',
      resolvedValue = JUndefined, r_strategy = ''getOwnPropertyDescriptor'',
      confidence = dbl (7 / 10), resolved = True\<rparr>"
  by (simp add: resolveIndividualConflict_def Let_def constructorConflict_def callRule_def
      lookupMethod_def dataTypes_def rule_tables sampleBuiltins_def isDigit_def)

section \<open>Batch Sync Engine: lemmas\<close>

lemma createBatches_Nil: "createBatches [] n = Some []"
  by (simp add: createBatches.simps)

lemma createBatches_total: "0 < n \<Longrightarrow> \<exists>bs. createBatches xs n = Some bs"
proof (induction xs n rule: createBatches.induct)
  case (1 array batchSize)
  then show ?case by (subst createBatches.simps) auto
qed

lemma createBatches_concat: "createBatches xs n = Some bs \<Longrightarrow> concat bs = xs"
proof (induction xs n arbitrary: bs rule: createBatches.induct)
  case (1 array batchSize)
  show ?case
  proof (cases "array = [] \<or> batchSize = 0")
    case True
    then show ?thesis using "1.prems" by (subst (asm) createBatches.simps) (auto split: if_splits)
  next
    case False
    then obtain rest where r: "createBatches (drop batchSize array) batchSize = Some rest"
      and b: "bs = take batchSize array # rest"
      using "1.prems" by (subst (asm) createBatches.simps) auto
    from "1.IH" [OF _ _ r] False have "concat rest = drop batchSize array" by simp
    then show ?thesis using b by simp
  qed
qed

lemma createBatches_120:
  assumes "length xs = 120"
  shows "createBatches xs 50 = Some [take 50 xs, take 50 (drop 50 xs), drop 100 xs]"
proof -
  have 1: "xs \<noteq> []" "drop 50 xs \<noteq> []" "drop 100 xs \<noteq> []" "drop 150 xs = []"
    using assms by auto
  have a: "createBatches (drop 100 xs) 50 = Some [drop 100 xs]"
    using 1 assms by (subst createBatches.simps) (simp add: createBatches_Nil)
  have b: "createBatches (drop 50 xs) 50 = Some [take 50 (drop 50 xs), drop 100 xs]"
    using 1 a by (subst createBatches.simps) simp
  show ?thesis using 1 b by (subst createBatches.simps) simp
qed

lemma performSync_returns: "\<exists>x. performSync B integ sourceData = Some x"
proof -
  obtain bs where "createBatches sourceData 50 = Some bs"
    using createBatches_total [of 50 sourceData] by auto
  then show ?thesis
    by (simp add: performSync_def Let_def split: sum.splits)
qed

lemma processRecords_counts:
  "processRecords B integ batch res = Inr res' \<Longrightarrow>
   successful res' + failed res' = successful res + failed res + length batch"
proof (induction batch arbitrary: res)
  case Nil
  then show ?case by simp
next
  case (Cons x batch)
  obtain record' d where x: "x = (record', d)" by (cases x)
  obtain n out where p: "processRecord B integ record' d = (n, out)"
    by (cases "processRecord B integ record' d")
  show ?case
  proof (cases out)
    case (Inr u)
    with Cons.prems x p
    have "processRecords B integ batch
            (res\<lparr>b_conflicts := b_conflicts res + n, successful := successful res + 1\<rparr>) = Inr res'"
      by simp
    from Cons.IH [OF this] show ?thesis by simp
  next
    case (Inl e)
    with Cons.prems x p obtain r where r: "record' = Some r"
      by (cases record') auto
    with Cons.prems x p Inl
    have "processRecords B integ batch
            (res\<lparr>b_conflicts := b_conflicts res + n, failed := failed res + 1,
                 b_errors := b_errors res @ [RecordError (getProp r ''Id'') e]\<rparr>) = Inr res'"
      by simp
    from Cons.IH [OF this] show ?thesis by simp
  qed
qed

lemma processBatches_totalRecords:
  "totalRecords (processBatches B integ i batches res) = totalRecords res"
  by (induction batches arbitrary: i res) (auto split: sum.splits)

lemma processBatches_counts:
  "successfulRecords (processBatches B integ i batches res) + failedRecords (processBatches B integ i batches res)
   = successfulRecords res + failedRecords res + length (concat batches)"
proof (induction batches arbitrary: i res)
  case Nil
  then show ?case by simp
next
  case (Cons batch batches)
  show ?case
  proof (cases "processBatch B integ batch")
    case (Inl e)
    then show ?thesis using Cons.IH by simp
  next
    case (Inr br)
    then have "successful br + failed br = length batch"
      using processRecords_counts [of B integ batch _ br] by (simp add: processBatch_def)
    then show ?thesis using Inr Cons.IH by simp
  qed
qed

lemma processBatches_processed_le:
  "processedRecords (processBatches B integ i batches res)
   \<le> processedRecords res + length (concat batches)"
proof (induction batches arbitrary: i res)
  case Nil
  then show ?case by simp
next
  case (Cons batch batches)
  show ?case
  proof (cases "processBatch B integ batch")
    case (Inl e)
    then show ?thesis using Cons.IH [of "Suc i" "res\<lparr>failedRecords := failedRecords res + length batch,
                    errors := errors res @ [BatchError (i + 1) e (length batch)]\<rparr>"] by simp
  next
    case (Inr br)
    then show ?thesis using Cons.IH [of "Suc i" "res\<lparr>processedRecords := processedRecords res + length batch,
                    successfulRecords := successfulRecords res + successful br,
                    failedRecords := failedRecords res + failed br,
                    conflicts := conflicts res + b_conflicts br,
                    errors := errors res @ b_errors br\<rparr>"] by simp
  qed
qed

lemma sync_counts_every_record:
  assumes "performSync B integ sourceData = Some (Inr r)"
  shows "successfulRecords r + failedRecords r = totalRecords r \<and> totalRecords r = length sourceData
         \<and> processedRecords r \<le> totalRecords r"
proof -
  obtain bs where bs: "createBatches sourceData 50 = Some bs"
    using createBatches_total [of 50 sourceData] by auto
  have c: "length (concat bs) = length sourceData" using createBatches_concat [OF bs] by simp
  let ?r0 = "\<lparr>totalRecords = length sourceData, processedRecords = 0, successfulRecords = 0,
              failedRecords = 0, conflicts = 0, errors = [], successRate = JUndefined\<rparr>"
  let ?res = "processBatches B integ 0 bs ?r0"
  have 1: "successfulRecords ?res + failedRecords ?res = length sourceData"
    using processBatches_counts [of B integ 0 bs ?r0] c by simp
  have 2: "totalRecords ?res = length sourceData"
    using processBatches_totalRecords [of B integ 0 bs ?r0] by simp
  have 3: "processedRecords ?res \<le> length sourceData"
    using processBatches_processed_le [of B integ 0 bs ?r0] c by simp
  obtain rate where "r = ?res\<lparr>successRate := rate\<rparr>"
    using assms bs by (auto simp: performSync_def Let_def split: sum.splits)
  then show ?thesis using 1 2 3 by simp
qed

lemma success_rate_general:
  assumes "performSync B integ sourceData = Some (Inr r)"
  shows "successRate r =
           (if totalRecords r = 0 then JNum (Fin 0)
            else JStr (toFixed2 (dbl (dbl (of_nat (successfulRecords r) / of_nat (totalRecords r)) * 100))))"
  using assms
  by (auto simp: performSync_def Let_def split: sum.splits option.splits)

lemma processRecord_wellformed:
  assumes "syncSettings integ \<noteq> None"
  shows "snd (processRecord B integ (Some r) d) =
           (case writeError d of Some msg \<Rightarrow> Inl (Thrown msg) | None \<Rightarrow> Inr ())"
proof -
  obtain m where "applyFieldMappings B (Some r) (fieldMappings integ) = Inr m"
    using applyFieldMappings_Some by blast
  then show ?thesis using assms
    by (auto simp: processRecord_def Let_def syncToTarget_def split: option.splits)
qed

lemma processRecords_wellformed:
  assumes "syncSettings integ \<noteq> None" and "\<forall>x\<in>set batch. fst x \<noteq> None"
  shows "\<exists>res'. processRecords B integ batch res = Inr res' \<and>
           successful res' = successful res + length (filter (\<lambda>x. writeError (snd x) = None) batch) \<and>
           failed res' = failed res + length (filter (\<lambda>x. writeError (snd x) \<noteq> None) batch) \<and>
           b_errors res' = b_errors res @ recordFailures batch"
  using assms(2)
proof (induction batch arbitrary: res)
  case Nil
  then show ?case by (simp add: recordFailures_def)
next
  case (Cons x batch)
  obtain record' d where x: "x = (record', d)" by (cases x)
  with Cons.prems obtain r where r: "record' = Some r" by auto
  obtain n out where p: "processRecord B integ (Some r) d = (n, out)"
    by (cases "processRecord B integ (Some r) d")
  have out: "out = (case writeError d of Some msg \<Rightarrow> Inl (Thrown msg) | None \<Rightarrow> Inr ())"
    using processRecord_wellformed [OF assms(1), of B r d] p by simp
  have rest: "\<forall>x\<in>set batch. fst x \<noteq> None" using Cons.prems by simp
  show ?case
  proof (cases "writeError d")
    case None
    from Cons.IH [OF rest, of "res\<lparr>b_conflicts := b_conflicts res + n, successful := successful res + 1\<rparr>"]
    show ?thesis using None out p x r by (auto simp: recordFailures_def)
  next
    case (Some msg)
    from Cons.IH [OF rest, of "res\<lparr>b_conflicts := b_conflicts res + n, failed := failed res + 1,
                          b_errors := b_errors res @ [RecordError (getProp r ''Id'') (Thrown msg)]\<rparr>"]
    show ?thesis using Some out p x r by (auto simp: recordFailures_def)
  qed
qed

lemma processBatch_wellformed:
  assumes "syncSettings integ \<noteq> None" and "\<forall>x\<in>set batch. fst x \<noteq> None"
  shows "\<exists>res'. processBatch B integ batch = Inr res' \<and>
           successful res' = length (filter (\<lambda>x. writeError (snd x) = None) batch) \<and>
           failed res' = length (filter (\<lambda>x. writeError (snd x) \<noteq> None) batch) \<and>
           b_errors res' = recordFailures batch"
  using processRecords_wellformed [OF assms, of B "\<lparr>successful = 0, failed = 0, b_conflicts = 0, b_errors = []\<rparr>"]
  by (simp add: processBatch_def)

lemma recordFailures_none:
  "\<forall>x\<in>set batch. writeError (snd x) = None \<Longrightarrow> recordFailures batch = []"
  by (induction batch) (auto simp: recordFailures_def split: option.splits)

lemma batchEntries_append: "batchEntries (xs @ ys) = batchEntries xs @ batchEntries ys"
  by (induction xs rule: batchEntries.induct) simp_all

lemma recordFailures_all:
  "\<forall>x\<in>set batch. fst x \<noteq> None \<and> writeError (snd x) \<noteq> None \<Longrightarrow>
   length (recordFailures batch) = length batch"
  by (induction batch) (auto simp: recordFailures_def split: option.splits)

lemma batchEntries_recordFailures: "batchEntries (recordFailures batch) = []"
  by (induction batch) (auto simp: recordFailures_def batchEntries_append split: option.splits)

lemma sync_120_general:
  assumes valid: "validateIntegrationConfig integ = Inr ()"
    and settings: "syncSettings integ \<noteq> None"
    and len: "length sourceData = 120"
    and present: "\<forall>x\<in>set sourceData. fst x \<noteq> None"
    and ok1: "\<forall>x\<in>set (take 50 sourceData). writeError (snd x) = None"
    and bad: "\<forall>x\<in>set (take 50 (drop 50 sourceData)). writeError (snd x) \<noteq> None"
    and ok3: "\<forall>x\<in>set (drop 100 sourceData). writeError (snd x) = None"
  shows "\<exists>res. performSync B integ sourceData = Some (Inr res) \<and>
           successfulRecords res = 70 \<and> failedRecords res = 50 \<and> processedRecords res = 120 \<and>
           errors res = recordFailures (take 50 (drop 50 sourceData)) \<and>
           length (errors res) = 50 \<and> batchEntries (errors res) = []"
proof -
  let ?b1 = "take 50 sourceData" and ?b2 = "take 50 (drop 50 sourceData)" and ?b3 = "drop 100 sourceData"
  have p1: "\<forall>x\<in>set ?b1. fst x \<noteq> None" using present by (meson in_set_takeD)
  have p2: "\<forall>x\<in>set ?b2. fst x \<noteq> None" using present by (meson in_set_takeD in_set_dropD)
  have p3: "\<forall>x\<in>set ?b3. fst x \<noteq> None" using present by (meson in_set_dropD)
  obtain r1 where r1: "processBatch B integ ?b1 = Inr r1" "successful r1 = 50" "failed r1 = 0"
      "b_errors r1 = []"
    using processBatch_wellformed [OF settings p1, of B] ok1 len recordFailures_none [OF ok1]
    by auto
  obtain r2 where r2: "processBatch B integ ?b2 = Inr r2" "successful r2 = 0" "failed r2 = 50"
      "b_errors r2 = recordFailures ?b2"
    using processBatch_wellformed [OF settings p2, of B] bad len
    by auto
  obtain r3 where r3: "processBatch B integ ?b3 = Inr r3" "successful r3 = 20" "failed r3 = 0"
      "b_errors r3 = []"
    using processBatch_wellformed [OF settings p3, of B] ok3 len recordFailures_none [OF ok3]
    by auto
  have f: "length (recordFailures ?b2) = 50"
    using recordFailures_all [of ?b2] p2 bad len by simp
  show ?thesis
    using f by (simp add: performSync_def valid createBatches_120 [OF len] r1 r2 r3 len Let_def
        batchEntries_recordFailures)
qed

subsection \<open>Runs without a whole-batch exception\<close>

text \<open>
  \<^verbatim>\<open>processBatch\<close> fails as a whole only on a record that is \<^verbatim>\<open>null\<close> or \<^verbatim>\<open>undefined\<close>. When
  the source data has none, every batch is counted as processed and the three counters
  agree.
\<close>

lemma processRecords_no_null:
  assumes "\<forall>x\<in>set batch. fst x \<noteq> None"
  shows "\<exists>res'. processRecords B integ batch res = Inr res'"
  using assms
proof (induction batch arbitrary: res)
  case Nil
  then show ?case by simp
next
  case (Cons x batch)
  obtain record' d where x: "x = (record', d)" by (cases x)
  with Cons.prems obtain r where r: "record' = Some r" by auto
  have rest: "\<forall>x\<in>set batch. fst x \<noteq> None" using Cons.prems by simp
  obtain n out where p: "processRecord B integ (Some r) d = (n, out)"
    by (cases "processRecord B integ (Some r) d")
  show ?case
    using Cons.IH [OF rest] x r p by (cases out) simp_all
qed

lemma processBatches_processed_all:
  assumes "\<forall>batch\<in>set batches. \<forall>x\<in>set batch. fst x \<noteq> None"
  shows "processedRecords (processBatches B integ i batches res)
           = processedRecords res + length (concat batches)"
  using assms
proof (induction batches arbitrary: i res)
  case Nil
  then show ?case by simp
next
  case (Cons batch batches)
  have "\<forall>x\<in>set batch. fst x \<noteq> None" using Cons.prems by simp
  then obtain br where br: "processBatch B integ batch = Inr br"
    using processRecords_no_null [of batch B integ] by (auto simp: processBatch_def)
  have rest: "\<forall>batch\<in>set batches. \<forall>x\<in>set batch. fst x \<noteq> None" using Cons.prems by simp
  show ?case using Cons.IH [OF rest] br by simp
qed

lemma counters_agree_without_null_records:
  assumes "performSync B integ sourceData = Some (Inr r)"
    and "\<forall>x\<in>set sourceData. fst x \<noteq> None"
  shows "processedRecords r = totalRecords r \<and>
         successfulRecords r + failedRecords r = processedRecords r"
proof -
  obtain bs where bs: "createBatches sourceData 50 = Some bs"
    using createBatches_total [of 50 sourceData] by auto
  have c: "concat bs = sourceData" using createBatches_concat [OF bs] .
  have nn: "\<forall>batch\<in>set bs. \<forall>x\<in>set batch. fst x \<noteq> None"
    using assms(2) c by auto
  let ?r0 = "\<lparr>totalRecords = length sourceData, processedRecords = 0, successfulRecords = 0,
              failedRecords = 0, conflicts = 0, errors = [], successRate = JUndefined\<rparr>"
  have 1: "processedRecords (processBatches B integ 0 bs ?r0) = length sourceData"
    using processBatches_processed_all [OF nn, of B integ 0 ?r0] c by simp
  obtain rate where "r = (processBatches B integ 0 bs ?r0)\<lparr>successRate := rate\<rparr>"
    using assms(1) bs by (auto simp: performSync_def Let_def split: sum.splits)
  then have "processedRecords r = length sourceData" using 1 by simp
  then show ?thesis using sync_counts_every_record [OF assms(1)] by simp
qed

text \<open>
  The loop of \<^verbatim>\<open>performSync\<close> accounts for the batches one after the other: the
  accumulator after the first \<open>k\<close> batches is the result of the loop on these \<open>k\<close> batches.
\<close>

lemma processBatches_append:
  "processBatches B integ i (xs @ ys) res
     = processBatches B integ (i + length xs) ys (processBatches B integ i xs res)"
  by (induction xs arbitrary: i res) simp_all

lemma processBatches_prefix:
  assumes "k \<le> length batches"
  shows "processBatches B integ 0 batches res
           = processBatches B integ k (drop k batches) (processBatches B integ 0 (take k batches) res)"
proof -
  have "processBatches B integ 0 (take k batches @ drop k batches) res
          = processBatches B integ (0 + length (take k batches)) (drop k batches)
              (processBatches B integ 0 (take k batches) res)"
    by (rule processBatches_append)
  moreover have "length (take k batches) = k" using assms by simp
  ultimately show ?thesis by (simp only: append_take_drop_id add_0)
qed

lemma processBatch_no_null:
  assumes "\<forall>x\<in>set batch. fst x \<noteq> None"
  shows "\<exists>batchResult. processBatch B integ batch = Inr batchResult \<and>
           successful batchResult + failed batchResult = length batch"
proof -
  obtain br where br: "processBatch B integ batch = Inr br"
    using processRecords_no_null [OF assms, of B integ] by (auto simp: processBatch_def)
  then have "successful br + failed br = length batch"
    using processRecords_counts [of B integ batch _ br] by (simp add: processBatch_def)
  with br show ?thesis by simp
qed

lemma counters_agree_after_batches:
  assumes present: "\<forall>x\<in>set sourceData. fst x \<noteq> None"
    and bs: "createBatches sourceData 50 = Some batches"
  shows "successfulRecords (processBatches B integ 0 (take k batches)
            \<lparr>totalRecords = length sourceData, processedRecords = 0, successfulRecords = 0,
             failedRecords = 0, conflicts = 0, errors = [], successRate = JUndefined\<rparr>)
         + failedRecords (processBatches B integ 0 (take k batches)
            \<lparr>totalRecords = length sourceData, processedRecords = 0, successfulRecords = 0,
             failedRecords = 0, conflicts = 0, errors = [], successRate = JUndefined\<rparr>)
         = processedRecords (processBatches B integ 0 (take k batches)
            \<lparr>totalRecords = length sourceData, processedRecords = 0, successfulRecords = 0,
             failedRecords = 0, conflicts = 0, errors = [], successRate = JUndefined\<rparr>)"
proof -
  let ?r0 = "\<lparr>totalRecords = length sourceData, processedRecords = 0, successfulRecords = 0,
              failedRecords = 0, conflicts = 0, errors = [], successRate = JUndefined\<rparr>"
  have c: "concat batches = sourceData" using createBatches_concat [OF bs] .
  have nn: "\<forall>batch\<in>set (take k batches). \<forall>x\<in>set batch. fst x \<noteq> None"
  proof (intro ballI)
    fix batch x assume b: "batch \<in> set (take k batches)" and x: "x \<in> set batch"
    from b have "batch \<in> set batches" by (rule in_set_takeD)
    with x have "x \<in> set (concat batches)" by auto
    then show "fst x \<noteq> None" using present c by simp
  qed
  show ?thesis
    using processBatches_processed_all [OF nn, of B integ 0 ?r0]
      processBatches_counts [of B integ 0 "take k batches" ?r0]
    by simp
qed

lemma batches_without_exception:
  assumes present: "\<forall>x\<in>set sourceData. fst x \<noteq> None"
    and bs: "createBatches sourceData 50 = Some batches"
  shows "\<forall>batch\<in>set batches. \<exists>batchResult. processBatch B integ batch = Inr batchResult \<and>
           successful batchResult + failed batchResult = length batch"
proof
  fix batch assume b: "batch \<in> set batches"
  have c: "concat batches = sourceData" using createBatches_concat [OF bs] .
  have "\<forall>x\<in>set batch. fst x \<noteq> None"
  proof
    fix x assume "x \<in> set batch"
    with b have "x \<in> set (concat batches)" by auto
    then show "fst x \<noteq> None" using present c by simp
  qed
  then show "\<exists>batchResult. processBatch B integ batch = Inr batchResult \<and>
           successful batchResult + failed batchResult = length batch"
    by (rule processBatch_no_null)
qed

lemma counters_agree_general:
  assumes present: "\<forall>x\<in>set sourceData. fst x \<noteq> None"
    and bs: "createBatches sourceData 50 = Some batches"
  shows "(\<forall>batch\<in>set batches. \<exists>batchResult. processBatch B integ batch = Inr batchResult \<and>
            successful batchResult + failed batchResult = length batch) \<and>
         successfulRecords (processBatches B integ 0 (take k batches)
            \<lparr>totalRecords = length sourceData, processedRecords = 0, successfulRecords = 0,
             failedRecords = 0, conflicts = 0, errors = [], successRate = JUndefined\<rparr>)
         + failedRecords (processBatches B integ 0 (take k batches)
            \<lparr>totalRecords = length sourceData, processedRecords = 0, successfulRecords = 0,
             failedRecords = 0, conflicts = 0, errors = [], successRate = JUndefined\<rparr>)
         = processedRecords (processBatches B integ 0 (take k batches)
            \<lparr>totalRecords = length sourceData, processedRecords = 0, successfulRecords = 0,
             failedRecords = 0, conflicts = 0, errors = [], successRate = JUndefined\<rparr>) \<and>
         (\<forall>r. performSync B integ sourceData = Some (Inr r) \<longrightarrow>
            successfulRecords r + failedRecords r = processedRecords r \<and>
            processedRecords r = totalRecords r)"
proof (intro conjI allI impI)
  show "\<forall>batch\<in>set batches. \<exists>batchResult. processBatch B integ batch = Inr batchResult \<and>
            successful batchResult + failed batchResult = length batch"
    using assms by (rule batches_without_exception)
next
  show "successfulRecords (processBatches B integ 0 (take k batches)
            \<lparr>totalRecords = length sourceData, processedRecords = 0, successfulRecords = 0,
             failedRecords = 0, conflicts = 0, errors = [], successRate = JUndefined\<rparr>)
         + failedRecords (processBatches B integ 0 (take k batches)
            \<lparr>totalRecords = length sourceData, processedRecords = 0, successfulRecords = 0,
             failedRecords = 0, conflicts = 0, errors = [], successRate = JUndefined\<rparr>)
         = processedRecords (processBatches B integ 0 (take k batches)
            \<lparr>totalRecords = length sourceData, processedRecords = 0, successfulRecords = 0,
             failedRecords = 0, conflicts = 0, errors = [], successRate = JUndefined\<rparr>)"
    using assms by (rule counters_agree_after_batches)
next
  fix r assume "performSync B integ sourceData = Some (Inr r)"
  from counters_agree_without_null_records [OF this present]
  show "successfulRecords r + failedRecords r = processedRecords r" by simp
next
  fix r assume "performSync B integ sourceData = Some (Inr r)"
  from counters_agree_without_null_records [OF this present]
  show "processedRecords r = totalRecords r" by simp
qed

lemma scenario120_after_two_batches:
  "processedRecords (processBatches sampleBuiltins sampleIntegration 0
      [take 50 scenario120, take 50 (drop 50 scenario120)]
      \<lparr>totalRecords = length scenario120, processedRecords = 0, successfulRecords = 0,
       failedRecords = 0, conflicts = 0, errors = [], successRate = JUndefined\<rparr>) = 100"
proof -
  have nn: "\<forall>batch\<in>set [take 50 scenario120, take 50 (drop 50 scenario120)].
              \<forall>x\<in>set batch. fst x \<noteq> None"
    by (auto simp: scenario120_def)
  show ?thesis
    using processBatches_processed_all [OF nn, of sampleBuiltins sampleIntegration 0]
    by (simp add: scenario120_def)
qed

subsection \<open>Double arithmetic and the success rate\<close>

text \<open>
  Rounding to a double changes a positive number by at most the fraction \<open>2 ^ -53\<close> of it,
  and \<^verbatim>\<open>toFixed(2)\<close> writes the nearest number of hundredths in decimal.
\<close>

lemma bitLength_bounds: "0 < n \<Longrightarrow> 2 ^ (bitLength n - 1) \<le> n \<and> n < 2 ^ bitLength n"
proof (induction n rule: bitLength.induct)
  case (1 n)
  show ?case
  proof (cases "n div 2 = 0")
    case True
    with 1 have n1: "n = Suc 0" by (simp add: div_eq_0_iff)
    have "bitLength (Suc 0) = Suc 0"
      by (simp add: bitLength.simps [of "Suc 0"] bitLength.simps [of 0])
    then show ?thesis using n1 by simp
  next
    case False
    then have pos: "0 < n div 2" by simp
    from "1.IH" [OF _ pos] "1.prems"
    have ih: "2 ^ (bitLength (n div 2) - 1) \<le> n div 2" "n div 2 < 2 ^ bitLength (n div 2)" by simp_all
    have b: "bitLength n = Suc (bitLength (n div 2))"
      using "1.prems" by (subst bitLength.simps) simp
    have bpos: "0 < bitLength (n div 2)"
      using pos by (subst bitLength.simps) simp
    then obtain k where k: "bitLength (n div 2) = Suc k" by (cases "bitLength (n div 2)") simp_all
    have dm: "2 * (n div 2) \<le> n" "n < 2 * (n div 2) + 2" by linarith+
    have "2 * 2 ^ k \<le> n" using ih(1) k dm(1) by simp
    moreover have "n < 2 * (2 * 2 ^ k)" using ih(2) k dm(2) by simp
    ultimately show ?thesis using b k by simp
  qed
qed

lemma pow2_pos: "0 < pow2 k"
  by (simp add: pow2_def)

lemma pow2_neg: "pow2 (- int k) = 1 / 2 ^ k"
  by (cases "k = 0") (simp_all add: pow2_def)

lemma pow2_power_int: "pow2 k = power_int 2 k"
  by (simp add: pow2_def power_int_def field_simps)

lemma pow2_shift: "pow2 (e - 52) = pow2 e / 2 ^ 52"
  by (simp add: pow2_power_int power_int_diff)

lemma exponentOf_lower: assumes "0 < x" shows "pow2 (exponentOf x) \<le> x"
proof (cases "1 \<le> x")
  case True
  let ?n = "nat \<lfloor>x\<rfloor>"
  have n: "0 < ?n" using True by simp
  have "(2::nat) ^ (bitLength ?n - 1) \<le> ?n" using bitLength_bounds [OF n] by simp
  then have "of_nat ((2::nat) ^ (bitLength ?n - 1)) \<le> (of_nat ?n :: rat)"
    by (simp only: of_nat_le_iff)
  then have "(2::rat) ^ (bitLength ?n - 1) \<le> of_nat ?n" by simp
  also have "(of_nat ?n :: rat) = of_int \<lfloor>x\<rfloor>" using True by simp
  also have "\<dots> \<le> x" by simp
  finally have le: "(2::rat) ^ (bitLength ?n - 1) \<le> x" .
  have bl: "0 < bitLength ?n" using n by (subst bitLength.simps) simp
  have "exponentOf x = int (bitLength ?n - 1)"
    using True bl by (simp add: exponentOf_def)
  then show ?thesis using le by (simp add: pow2_def)
next
  case False
  let ?k = "bitLength (nat \<lfloor>1 / x\<rfloor>)"
  show ?thesis
  proof (cases "pow2 (1 - int ?k) \<le> x")
    case True
    then show ?thesis using False by (simp add: exponentOf_def Let_def)
  next
    case no: False
    have e: "exponentOf x = - int ?k" using False no by (simp add: exponentOf_def Let_def)
    have y1: "1 < 1 / x" using False assms by simp
    then have "(1::rat) \<le> 1 / x" by linarith
    then have "rat_of_int 1 \<le> 1 / x" by (simp only: of_int_1)
    then have z: "1 \<le> \<lfloor>1 / x\<rfloor>" by (simp only: le_floor_iff)
    then have n: "0 < nat \<lfloor>1 / x\<rfloor>" by linarith
    have "0 \<le> \<lfloor>1 / x\<rfloor>" using z by linarith
    then have zi: "int (nat \<lfloor>1 / x\<rfloor>) = \<lfloor>1 / x\<rfloor>" by (rule nat_0_le)
    have "nat \<lfloor>1 / x\<rfloor> < 2 ^ ?k" using bitLength_bounds [OF n] by simp
    then have "int (nat \<lfloor>1 / x\<rfloor>) < int (2 ^ ?k)" by (simp only: of_nat_less_iff)
    then have "\<lfloor>1 / x\<rfloor> < 2 ^ ?k" unfolding zi by simp
    then have "1 / x < of_int (2 ^ ?k)" by (simp only: floor_less_iff)
    then have "1 / x < 2 ^ ?k" by simp
    then have "1 / 2 ^ ?k < x" using assms by (simp add: field_simps)
    then show ?thesis using e by (simp add: pow2_neg)
  qed
qed

lemma roundHalfEven_error: "\<bar>of_int (roundHalfEven y) - y\<bar> \<le> 1 / 2"
proof -
  define n where "n = \<lfloor>y\<rfloor>"
  define f where "f = y - of_int n"
  have f: "0 \<le> f" "f < 1" unfolding f_def n_def by linarith+
  have r: "roundHalfEven y = (if f < 1 / 2 then n else if 1 / 2 < f then n + 1 else if even n then n else n + 1)"
    by (simp add: roundHalfEven_def Let_def n_def f_def)
  have down: "roundHalfEven y = n \<Longrightarrow> of_int (roundHalfEven y) - y = - f"
    by (simp add: f_def)
  have up: "roundHalfEven y = n + 1 \<Longrightarrow> of_int (roundHalfEven y) - y = 1 - f"
    by (simp add: f_def)
  consider "f < 1 / 2" | "1 / 2 < f" | "f = 1 / 2" by linarith
  then show ?thesis
  proof cases
    case 1
    then have "roundHalfEven y = n" by (simp add: r)
    from down [OF this] show ?thesis using 1 f by linarith
  next
    case 2
    then have "roundHalfEven y = n + 1" by (simp add: r)
    from up [OF this] show ?thesis using 2 f by linarith
  next
    case 3
    then have "roundHalfEven y = n \<or> roundHalfEven y = n + 1" by (simp add: r)
    then show ?thesis
    proof
      assume "roundHalfEven y = n"
      from down [OF this] show ?thesis using 3 by linarith
    next
      assume "roundHalfEven y = n + 1"
      from up [OF this] show ?thesis using 3 by linarith
    qed
  qed
qed

lemma dbl_error: assumes "0 < x" shows "\<bar>dbl x - x\<bar> \<le> x / 2 ^ 53"
proof -
  define u where "u = pow2 (exponentOf x - 52)"
  define a where "a = (of_int (roundHalfEven (x / u)) :: rat)"
  have u: "0 < u" unfolding u_def by (rule pow2_pos)
  have ux: "u \<le> x / 2 ^ 52"
    unfolding u_def using exponentOf_lower [OF assms] by (simp add: pow2_shift divide_right_mono)
  have d: "dbl x = a * u"
    using assms by (simp add: dbl_def Let_def a_def u_def)
  have "a * u - x = (a - x / u) * u" using u by (simp add: field_simps)
  then have "\<bar>dbl x - x\<bar> = \<bar>a - x / u\<bar> * u"
    using u by (simp add: d abs_mult)
  also have "\<dots> \<le> 1 / 2 * u"
    using roundHalfEven_error [of "x / u"] u unfolding a_def by (simp add: mult_right_mono)
  also have "\<dots> \<le> 1 / 2 * (x / 2 ^ 52)" using ux by simp
  finally show ?thesis by simp
qed

lemma dbl_zero [simp]: "dbl 0 = 0" by (simp add: dbl_def)

lemma percentage_error:
  assumes "s \<le> t" and "0 < t"
  shows "\<bar>dbl (dbl (of_nat s / of_nat t) * 100) - 100 * (of_nat s / of_nat t)\<bar> \<le> 1 / 2 ^ 45"
proof (cases "s = 0")
  case True
  then show ?thesis by simp
next
  case False
  define x where "x = (of_nat s / of_nat t :: rat)"
  define q where "q = dbl x"
  define p where "p = dbl (q * 100)"
  define e1 where "e1 = x / 2 ^ 53"
  define e2 where "e2 = q * 100 / 2 ^ 53"
  have x: "0 < x" "x \<le> 1" using False assms by (simp_all add: x_def)
  have e1: "0 < e1" "e1 \<le> 1 / 2 ^ 53" "e1 < x" using x by (simp_all add: e1_def field_simps)
  have q: "\<bar>q - x\<bar> \<le> e1" unfolding q_def e1_def using dbl_error [OF x(1)] .
  then have qpos: "0 < q" and qle: "q \<le> 1 + 1 / 2 ^ 53" using e1 x by linarith+
  have "0 < q * 100" using qpos by simp
  from dbl_error [OF this] have p: "\<bar>p - q * 100\<bar> \<le> e2" by (simp add: p_def e2_def)
  have e2: "e2 \<le> (1 + 1 / 2 ^ 53) * 100 / 2 ^ 53"
    unfolding e2_def using qle by (simp add: divide_right_mono)
  have "\<bar>p - 100 * x\<bar> \<le> e2 + 100 * e1" using p q by linarith
  also have "\<dots> \<le> (1 + 1 / 2 ^ 53) * 100 / 2 ^ 53 + 100 * (1 / 2 ^ 53)" using e2 e1(2) by linarith
  also have "\<dots> \<le> 1 / 2 ^ 45" by simp
  finally show ?thesis by (simp add: p_def q_def x_def)
qed

lemma digitsOf_small: "n < 10 \<Longrightarrow> digitsOf n = [digitChar n]"
  by (subst digitsOf.simps) simp
lemma digitsOf_step: "10 \<le> n \<Longrightarrow> digitsOf n = digitsOf (n div 10) @ [digitChar (n mod 10)]"
  by (subst digitsOf.simps) simp
lemma digitsOf_nonempty: "digitsOf n \<noteq> []"
  by (subst digitsOf.simps) simp
lemma digitChar_0: "digitChar 0 = CHR ''0''"
  by code_simp

lemma formatHundredths_small: assumes 1: "n < 10" shows
  "formatHundredths n = digitsOf (n div 100) @ ''.'' @ [digitChar (n div 10 mod 10), digitChar (n mod 10)]"
proof -
    from 1 have d: "digitsOf n = [digitChar n]" "digitsOf (n div 100) = [digitChar 0]"
      "n div 10 mod 10 = 0" "n mod 10 = n"
      by (simp_all add: digitsOf_small)
    show ?thesis 
      by (simp add: formatHundredths_def d Let_def digitChar_0 numeral_3_eq_3)
qed

lemma formatHundredths_medium: assumes 2: "10 \<le> n" "n < 100" shows
  "formatHundredths n = digitsOf (n div 100) @ ''.'' @ [digitChar (n div 10 mod 10), digitChar (n mod 10)]"
proof -
    from 2 have d: "digitsOf n = [digitChar (n div 10), digitChar (n mod 10)]"
      "digitsOf (n div 100) = [digitChar 0]" "n div 10 mod 10 = n div 10"
      by (simp_all add: digitsOf_step digitsOf_small)
    show ?thesis 
      by (simp add: formatHundredths_def d Let_def digitChar_0 numeral_3_eq_3)
qed

lemma formatHundredths_large: assumes 3: "100 \<le> n" shows
  "formatHundredths n = digitsOf (n div 100) @ ''.'' @ [digitChar (n div 10 mod 10), digitChar (n mod 10)]"
proof -
    from 3 have a: "10 \<le> n" "10 \<le> n div 10" by simp_all
    have h: "n div 10 div 10 = n div 100" using div_mult2_eq [of n 10 10] by simp
    have d: "digitsOf n = digitsOf (n div 100) @ [digitChar (n div 10 mod 10), digitChar (n mod 10)]"
      by (simp add: digitsOf_step [OF a(1)] digitsOf_step [OF a(2)] h)
    obtain c cs where c: "digitsOf (n div 100) = c # cs"
      using digitsOf_nonempty [of "n div 100"] by (cases "digitsOf (n div 100)") simp_all
    show ?thesis 
      by (simp add: formatHundredths_def d Let_def c)
qed

lemma formatHundredths_decimal:
  "formatHundredths n =
     digitsOf (n div 100) @ ''.'' @ [digitChar (n div 10 mod 10), digitChar (n mod 10)]"
proof -
  consider "n < 10" | "10 \<le> n" "n < 100" | "100 \<le> n" by linarith
  then show ?thesis
    by cases (rule formatHundredths_small formatHundredths_medium formatHundredths_large; assumption)+
qed

lemma dbl_nonneg: assumes "0 \<le> x" shows "0 \<le> dbl x"
proof (cases "x = 0")
  case True
  then show ?thesis by simp
next
  case False
  then have x: "0 < x" using assms by simp
  have "x / 2 ^ 53 \<le> x" using x by (simp add: field_simps)
  then show ?thesis using dbl_error [OF x] by linarith
qed

lemma toFixed2_value:
  assumes "0 \<le> p"
  shows "\<exists>n. toFixed2 p = formatHundredths n \<and> \<bar>of_nat n / 100 - p\<bar> \<le> 1 / 200"
proof -
  define z where "z = \<lfloor>p * 100 + 1 / 2\<rfloor>"
  have b: "of_int z \<le> p * 100 + 1 / 2" "p * 100 + 1 / 2 < of_int z + 1"
    unfolding z_def by linarith+
  have "0 \<le> z" unfolding z_def using assms by simp
  then have n: "(of_nat (nat z) :: rat) = of_int z" by simp
  have "\<bar>of_nat (nat z) / 100 - p\<bar> \<le> 1 / 200" unfolding n using b by (simp add: abs_if field_simps)
  then show ?thesis by (auto simp: toFixed2_def z_def)
qed

lemma success_rate_accuracy:
  assumes "s \<le> t" and "0 < t"
  shows "\<exists>n. toFixed2 (dbl (dbl (of_nat s / of_nat t) * 100)) = formatHundredths n \<and>
             \<bar>of_nat n / 100 - 100 * (of_nat s / of_nat t :: rat)\<bar> \<le> 1 / 200 + 1 / 2 ^ 45"
proof -
  let ?p = "dbl (dbl (of_nat s / of_nat t) * 100)"
  have "0 \<le> dbl (of_nat s / of_nat t)" by (rule dbl_nonneg) simp
  then have "0 \<le> ?p" by (intro dbl_nonneg) simp
  from toFixed2_value [OF this] obtain n where
    n: "toFixed2 ?p = formatHundredths n" "\<bar>of_nat n / 100 - ?p\<bar> \<le> 1 / 200" by blast
  have "\<bar>of_nat n / 100 - 100 * (of_nat s / of_nat t :: rat)\<bar> \<le> 1 / 200 + 1 / 2 ^ 45"
    using n(2) percentage_error [OF assms] by linarith
  with n(1) show ?thesis by blast
qed

lemma success_rate_rounded:
  assumes "performSync B integ sourceData = Some (Inr r)" and "totalRecords r \<noteq> 0"
  shows "\<exists>n. successRate r = JStr (formatHundredths n) \<and>
           \<bar>of_nat n / 100 - 100 * (of_nat (successfulRecords r) / of_nat (totalRecords r) :: rat)\<bar>
             \<le> 1 / 200 + 1 / 2 ^ 45"
proof -
  have c: "successfulRecords r \<le> totalRecords r" "0 < totalRecords r"
    using sync_counts_every_record [OF assms(1)] assms(2) by simp_all
  show ?thesis
    using success_rate_accuracy [OF c] success_rate_general [OF assms(1)] assms(2) by simp
qed

subsection \<open>The sample runs\<close>

text \<open>
  The source reader returns object literals, so a \<^verbatim>\<open>null\<close> entry is outside the data that
  \<^verbatim>\<open>performSync\<close> receives. The run over one shows what the \<^verbatim>\<open>catch\<close> of the batch loop
  would do: it counts the batch as failed, and not as processed.
\<close>

lemma sync_null_record:
  "performSync sampleBuiltins sampleIntegration nullRun =
     Some (Inr \<lparr>totalRecords = 1, processedRecords = 0, successfulRecords = 0, failedRecords = 1,
                conflicts = 0, errors = [BatchError 1 TypeError 1], successRate = JStr ''0.00''\<rparr>)"
  by code_simp

lemma sync_three_records:
  "performSync sampleBuiltins sampleIntegration threeRecords =
   Some (Inr \<lparr>totalRecords = 3, processedRecords = 3, successfulRecords = 1, failedRecords = 2,
     conflicts = 0, errors = [rejection, rejection], successRate = JStr ''33.33''\<rparr>)"
  by code_simp

lemma scenario120_facts:
  "length scenario120 = 120"
  "take 50 scenario120 = replicate 50 (Some sampleRecord, written)"
  "take 50 (drop 50 scenario120) = replicate 50 (Some sampleRecord, rejected)"
  "drop 100 scenario120 = replicate 20 (Some sampleRecord, written)"
  by (simp_all add: scenario120_def)

lemma recordFailures_rejected:
  "recordFailures (replicate n (Some sampleRecord, rejected)) = replicate n rejection"
  by (induction n) (simp_all add: recordFailures_def rejected_def rejection_def sampleRecord_def getProp_def)

lemma sampleIntegration_valid:
  "validateIntegrationConfig sampleIntegration = Inr ()" "syncSettings sampleIntegration \<noteq> None"
  by (simp_all add: validateIntegrationConfig_def sampleIntegration_def)

lemma scenario120_hyps:
  "\<forall>x\<in>set scenario120. fst x \<noteq> None"
  "\<forall>x\<in>set (take 50 scenario120). writeError (snd x) = None"
  "\<forall>x\<in>set (take 50 (drop 50 scenario120)). writeError (snd x) \<noteq> None"
  "\<forall>x\<in>set (drop 100 scenario120). writeError (snd x) = None"
  by (auto simp: scenario120_facts written_def rejected_def) (auto simp: scenario120_def)

lemma sync_120_errors:
  "map_option (map_sum id errors) (performSync sampleBuiltins sampleIntegration scenario120)
     = Some (Inr (replicate 50 rejection))"
  using sync_120_general [OF sampleIntegration_valid scenario120_facts(1) scenario120_hyps, of sampleBuiltins]
  by (auto simp: scenario120_facts recordFailures_rejected)

lemma batchEntries_rejections: "batchEntries (replicate n rejection) = []"
  by (induction n) (simp_all add: rejection_def)


subsection \<open>Further sample evaluations\<close>

lemma string_rules_return_non_strings:
  assumes "truthy w" and "\<forall>s. w \<noteq> JStr s"
  shows "applyTransformation B w ''formatPhone(value)'' = Inr w \<and>
         applyTransformation B w ''normalizeEmail(value)'' = Inr w \<and>
         applyTransformation B w ''normalizeName(value)'' = Inr w"
  using helpers_raise_on_non_strings [OF assms] assms(1)
  by (simp add: applyTransformation_def)

lemma resolve_status_ai:
  "resolutions (resolveConflicts sampleBuiltins [statusConflict] ''ai-resolve'') =
     [\<lparr>r_field = ''Status'', r_sourceValue = JStr ''Open'', r_targetValue = JStr ''Closed'',
       resolvedValue = JStr ''Open | Closed'', r_strategy = ''ai-resolve'',
       confidence = dbl (8 / 10), resolved = True\<rparr>]"
  by (simp add: resolveConflicts_def resolveIndividualConflict_def statusConflict_def Let_def
      fieldPriority_def callRule_def lookupMethod_def dataTypes_def rule_tables mergeString_def)


lemma similarity_example:
  "calculateFieldSimilarity ''Street'' ''State'' [''Address1''] [''StateProvince''] = 1 / 2"
  by code_simp

section \<open>The claims\<close>

subsection \<open>C1: the counters of a run\<close>

text \<open>
  C1: during every run of \<^verbatim>\<open>performSync\<close> on source data whose entries are records, the
  accumulator satisfies \<open>successfulRecords + failedRecords = processedRecords\<close> after each
  batch is accounted for, that is, after the first \<open>k\<close> batches for every \<open>k\<close>, and so does
  the returned result, whatever the integration and whichever records fail. A
  whole-batch exception needs an entry that is \<^verbatim>\<open>null\<close> or \<^verbatim>\<open>undefined\<close>: on records, every
  batch returns its counts, which add up to its length, and the \<^verbatim>\<open>catch\<close> of the batch loop
  is not entered.
\<close>

theorem counters_agree_after_every_batch:
  assumes "\<forall>x\<in>set sourceData. fst x \<noteq> None"
    and "createBatches sourceData 50 = Some batches"
  shows "(\<forall>batch\<in>set batches. \<exists>batchResult. processBatch B integ batch = Inr batchResult \<and>
            successful batchResult + failed batchResult = length batch) \<and>
         successfulRecords (processBatches B integ 0 (take k batches)
            \<lparr>totalRecords = length sourceData, processedRecords = 0, successfulRecords = 0,
             failedRecords = 0, conflicts = 0, errors = [], successRate = JUndefined\<rparr>)
         + failedRecords (processBatches B integ 0 (take k batches)
            \<lparr>totalRecords = length sourceData, processedRecords = 0, successfulRecords = 0,
             failedRecords = 0, conflicts = 0, errors = [], successRate = JUndefined\<rparr>)
         = processedRecords (processBatches B integ 0 (take k batches)
            \<lparr>totalRecords = length sourceData, processedRecords = 0, successfulRecords = 0,
             failedRecords = 0, conflicts = 0, errors = [], successRate = JUndefined\<rparr>) \<and>
         (\<forall>r. performSync B integ sourceData = Some (Inr r) \<longrightarrow>
            successfulRecords r + failedRecords r = processedRecords r \<and>
            processedRecords r = totalRecords r)"
  using assms by (rule counters_agree_general)

text \<open>
  C1 on the 120 records of which the target rejects the second batch, after two of the
  three batches, and on the run over three records of which the target rejects two.
\<close>

theorem counters_agree_after_every_batch_witness:
  "None \<notin> set (map fst scenario120) \<and>
   createBatches scenario120 50
     = Some [take 50 scenario120, take 50 (drop 50 scenario120), drop 100 scenario120] \<and>
   processedRecords (processBatches sampleBuiltins sampleIntegration 0
      [take 50 scenario120, take 50 (drop 50 scenario120)]
      \<lparr>totalRecords = length scenario120, processedRecords = 0, successfulRecords = 0,
       failedRecords = 0, conflicts = 0, errors = [], successRate = JUndefined\<rparr>) = 100 \<and>
   successfulRecords (processBatches sampleBuiltins sampleIntegration 0
      [take 50 scenario120, take 50 (drop 50 scenario120)]
      \<lparr>totalRecords = length scenario120, processedRecords = 0, successfulRecords = 0,
       failedRecords = 0, conflicts = 0, errors = [], successRate = JUndefined\<rparr>)
   + failedRecords (processBatches sampleBuiltins sampleIntegration 0
      [take 50 scenario120, take 50 (drop 50 scenario120)]
      \<lparr>totalRecords = length scenario120, processedRecords = 0, successfulRecords = 0,
       failedRecords = 0, conflicts = 0, errors = [], successRate = JUndefined\<rparr>) = 100 \<and>
   None \<notin> set (map fst threeRecords) \<and>
   createBatches threeRecords 50 = Some [threeRecords] \<and>
   performSync sampleBuiltins sampleIntegration threeRecords =
     Some (Inr \<lparr>totalRecords = 3, processedRecords = 3, successfulRecords = 1, failedRecords = 2,
       conflicts = 0, errors = [rejection, rejection], successRate = JStr ''33.33''\<rparr>) \<and>
   (1::nat) + 2 = 3"
proof -
  have h: "\<forall>x\<in>set scenario120. fst x \<noteq> None" by (rule scenario120_hyps(1))
  have n: "None \<notin> set (map fst scenario120)" using h by auto
  have b: "createBatches scenario120 50
     = Some [take 50 scenario120, take 50 (drop 50 scenario120), drop 100 scenario120]"
    by (rule createBatches_120 [OF scenario120_facts(1)])
  have h3: "\<forall>x\<in>set threeRecords. fst x \<noteq> None" by (simp add: threeRecords_def)
  have n3: "None \<notin> set (map fst threeRecords)" using h3 by auto
  have b3: "createBatches threeRecords 50 = Some [threeRecords]"
    by (subst createBatches.simps) (simp add: threeRecords_def createBatches_Nil)
  note t = counters_agree_after_every_batch [OF h b, of sampleBuiltins sampleIntegration 2]
  note t3 = counters_agree_after_every_batch [OF h3 b3, of sampleBuiltins sampleIntegration 1]
  have two: "take 2 [take 50 scenario120, take 50 (drop 50 scenario120), drop 100 scenario120]
               = [take 50 scenario120, take 50 (drop 50 scenario120)]"
    by simp
  have s: "successfulRecords (processBatches sampleBuiltins sampleIntegration 0
      [take 50 scenario120, take 50 (drop 50 scenario120)]
      \<lparr>totalRecords = length scenario120, processedRecords = 0, successfulRecords = 0,
       failedRecords = 0, conflicts = 0, errors = [], successRate = JUndefined\<rparr>)
   + failedRecords (processBatches sampleBuiltins sampleIntegration 0
      [take 50 scenario120, take 50 (drop 50 scenario120)]
      \<lparr>totalRecords = length scenario120, processedRecords = 0, successfulRecords = 0,
       failedRecords = 0, conflicts = 0, errors = [], successRate = JUndefined\<rparr>) = 100"
    using conjunct1 [OF conjunct2 [OF t]] scenario120_after_two_batches
    by (simp only: two)
  have e: "(1::nat) + 2 = 3"
    using conjunct2 [OF conjunct2 [OF t3]] sync_three_records by simp
  show ?thesis
    using n b scenario120_after_two_batches s n3 b3 sync_three_records e by (intro conjI)
qed

subsection \<open>C2: latest-wins without time stamps\<close>

text \<open>
  C2, as amended: under the \<^verbatim>\<open>latest-wins\<close> strategy, when no update time stamps are
  supplied to the rule (and \<^verbatim>\<open>resolveIndividualConflict\<close> never supplies them), the
  resolved value is the conflict's \<open>targetValue\<close>, for every data type, and the conflict
  counts as resolved.
\<close>

theorem latest_wins_selects_target:
  "latest_wins B source target JUndefined JUndefined = target \<and>
   resolved (resolveIndividualConflict B c ''latest-wins'') \<and>
   resolvedValue (resolveIndividualConflict B c ''latest-wins'') = targetValue c"
  by (simp add: latest_wins_undefined latest_wins_resolution)

text \<open>The amended C2 on the conflict between \<^verbatim>\<open>'Open'\<close> (source) and \<^verbatim>\<open>'Closed'\<close> (target).\<close>

theorem latest_wins_selects_target_witness:
  "resolved (resolveIndividualConflict sampleBuiltins statusConflict ''latest-wins'') \<and>
   resolvedValue (resolveIndividualConflict sampleBuiltins statusConflict ''latest-wins'') = JStr ''Closed''"
  using latest_wins_selects_target [of sampleBuiltins JNull JNull statusConflict]
  by (simp add: statusConflict_def)

text \<open>C2 as stated fails on that conflict: the resolved value is not the source value.\<close>

theorem latest_wins_not_source:
  "sourceValue statusConflict = JStr ''Open'' \<and>
   resolvedValue (resolveIndividualConflict sampleBuiltins statusConflict ''latest-wins'') = JStr ''Closed'' \<and>
   resolvedValue (resolveIndividualConflict sampleBuiltins statusConflict ''latest-wins'')
     \<noteq> sourceValue statusConflict"
  by (simp add: latest_wins_resolution statusConflict_def)

subsection \<open>C3: 120 records, the second batch rejected\<close>

text \<open>
  C3, as amended: for a run over 120 source records, none of them \<^verbatim>\<open>null\<close>, on a valid
  integration that has sync settings, with batches of 50, 50 and 20, in which the
  destination writer fails for every record of the second batch and succeeds for all
  others, the result has \<open>successfulRecords = 70\<close>, \<open>failedRecords = 50\<close> and
  \<open>processedRecords = 120\<close>, and its \<open>errors\<close> list holds exactly 50 entries, one
  \<^verbatim>\<open>{recordId, error}\<close> entry for each record of the second batch in order, and no entry
  that refers to a batch.
\<close>

theorem second_batch_rejected:
  assumes "validateIntegrationConfig integ = Inr ()"
    and "syncSettings integ \<noteq> None"
    and "length sourceData = 120"
    and "\<forall>x\<in>set sourceData. fst x \<noteq> None"
    and "\<forall>x\<in>set (take 50 sourceData). writeError (snd x) = None"
    and "\<forall>x\<in>set (take 50 (drop 50 sourceData)). writeError (snd x) \<noteq> None"
    and "\<forall>x\<in>set (drop 100 sourceData). writeError (snd x) = None"
  shows "\<exists>res. performSync B integ sourceData = Some (Inr res) \<and>
           successfulRecords res = 70 \<and> failedRecords res = 50 \<and> processedRecords res = 120 \<and>
           errors res = recordFailures (take 50 (drop 50 sourceData)) \<and>
           length (errors res) = 50 \<and> batchEntries (errors res) = []"
  using assms by (rule sync_120_general)

text \<open>The amended C3 on the run \<open>scenario120\<close>.\<close>

theorem second_batch_rejected_witness:
  "validateIntegrationConfig sampleIntegration = Inr () \<and>
   syncSettings sampleIntegration \<noteq> None \<and>
   length scenario120 = 120 \<and>
   map_option (map_sum id successfulRecords) (performSync sampleBuiltins sampleIntegration scenario120)
     = Some (Inr 70) \<and>
   map_option (map_sum id failedRecords) (performSync sampleBuiltins sampleIntegration scenario120)
     = Some (Inr 50) \<and>
   map_option (map_sum id processedRecords) (performSync sampleBuiltins sampleIntegration scenario120)
     = Some (Inr 120)"
  using second_batch_rejected [OF sampleIntegration_valid scenario120_facts(1) scenario120_hyps,
      of sampleBuiltins] sampleIntegration_valid scenario120_facts(1)
  by auto

text \<open>
  C3 as stated fails on \<open>scenario120\<close>: the \<open>errors\<close> list has 50 entries, one for each
  rejected record, and none of them refers to batch 2.
\<close>

theorem second_batch_errors_per_record:
  "map_option (map_sum id errors) (performSync sampleBuiltins sampleIntegration scenario120)
     = Some (Inr (replicate 50 rejection)) \<and>
   length (replicate 50 rejection) = 50 \<and>
   batchEntries (replicate 50 rejection) = [] \<and>
   batchEntries (replicate 50 rejection) \<noteq> [(2, 50)]"
  by (simp add: sync_120_errors batchEntries_rejections)

subsection \<open>C4: the transformers\<close>

text \<open>
  C4, as amended: \<^verbatim>\<open>applyTransformation\<close> is total, it returns a value for every value and
  every rule; \<^verbatim>\<open>formatDate\<close> and \<^verbatim>\<open>formatCurrency\<close> return a value for every argument, and
  the argument itself when the date is invalid or the number does not parse;
  \<^verbatim>\<open>formatPhone\<close>, \<^verbatim>\<open>normalizeEmail\<close> and \<^verbatim>\<open>normalizeName\<close> return a value for every string,
  and their argument for every falsy value, but raise a \<^verbatim>\<open>TypeError\<close> on a truthy argument
  that is no string (a number, \<^verbatim>\<open>true\<close>, a date), which \<^verbatim>\<open>applyTransformation\<close> catches,
  returning the argument unchanged; and \<^verbatim>\<open>formatPhone\<close> returns a string unchanged
  whenever its digits are neither 10 nor 11 starting with \<^verbatim>\<open>1\<close>.
\<close>

theorem transformation_total:
  "(\<exists>r. applyTransformation B v rule = Inr r) \<and>
   (\<exists>r. formatDate B v = Inr r) \<and> (\<exists>r. formatCurrency B v = Inr r) \<and>
   (\<exists>r. formatPhone (JStr s) = Inr r) \<and> (\<exists>r. normalizeEmail (JStr s) = Inr r) \<and>
   (\<exists>r. normalizeName (JStr s) = Inr r) \<and>
   (\<not> truthy u \<longrightarrow> formatPhone u = Inr u \<and> normalizeEmail u = Inr u \<and> normalizeName u = Inr u) \<and>
   (truthy w \<and> (\<forall>s. w \<noteq> JStr s) \<longrightarrow>
      formatPhone w = Inl TypeError \<and> normalizeEmail w = Inl TypeError \<and>
      normalizeName w = Inl TypeError \<and>
      applyTransformation B w ''formatPhone(value)'' = Inr w \<and>
      applyTransformation B w ''normalizeEmail(value)'' = Inr w \<and>
      applyTransformation B w ''normalizeName(value)'' = Inr w) \<and>
   (isoDate B x = None \<longrightarrow> formatDate B x = Inr x) \<and>
   (parseFloat B y = NaN \<longrightarrow> formatCurrency B y = Inr y) \<and>
   (length (stripNonDigits p) \<noteq> 10 \<and>
    \<not> (length (stripNonDigits p) = 11 \<and> stripNonDigits p ! 0 = CHR ''1'') \<longrightarrow>
      formatPhone (JStr p) = Inr (JStr p))"
  using applyTransformation_total [of B v rule] formatDate_total [of B v] formatCurrency_total [of B v]
    helpers_total_on_strings [of s] helpers_falsy [of u] helpers_raise_on_non_strings [of w]
    string_rules_return_non_strings [of w B] formatDate_unparsed [of B x]
    formatCurrency_unparsed [of B y] formatPhone_unchanged [of p]
  by blast

text \<open>
  The amended C4 on \<^verbatim>\<open>null\<close>, the number 5551234567, the date text \<^verbatim>\<open>'soon'\<close>, the amount
  \<^verbatim>\<open>'abc'\<close> and the phone number \<^verbatim>\<open>'555-1234'\<close>.
\<close>

theorem transformation_total_witness:
  "\<not> truthy JNull \<and> truthy (JNum (Fin 5551234567)) \<and>
   isoDate sampleBuiltins (JStr ''soon'') = None \<and>
   parseFloat sampleBuiltins (JStr ''abc'') = NaN \<and>
   length (stripNonDigits ''555-1234'') = 7 \<and>
   formatPhone JNull = Inr JNull \<and>
   formatPhone (JNum (Fin 5551234567)) = Inl TypeError \<and>
   applyTransformation sampleBuiltins (JNum (Fin 5551234567)) ''formatPhone(value)''
     = Inr (JNum (Fin 5551234567)) \<and>
   formatDate sampleBuiltins (JStr ''soon'') = Inr (JStr ''soon'') \<and>
   formatCurrency sampleBuiltins (JStr ''abc'') = Inr (JStr ''abc'') \<and>
   formatPhone (JStr ''555-1234'') = Inr (JStr ''555-1234'')"
proof -
  have h: "\<not> truthy JNull" "truthy (JNum (Fin 5551234567))" "\<forall>s. JNum (Fin 5551234567) \<noteq> JStr s"
    "isoDate sampleBuiltins (JStr ''soon'') = None" "parseFloat sampleBuiltins (JStr ''abc'') = NaN"
    "length (stripNonDigits ''555-1234'') = 7"
    by (simp_all add: sampleBuiltins_def stripNonDigits_def isDigit_def)
  show ?thesis
    using h transformation_total [of sampleBuiltins JNull "''x''" "''x''" JNull "JNum (Fin 5551234567)"
        "JStr ''soon''" "JStr ''abc''" "''555-1234''"]
    by simp
qed

text \<open>C4 as stated fails: \<^verbatim>\<open>formatPhone\<close> throws on a number.\<close>

theorem formatPhone_throws_on_number: "formatPhone (JNum (Fin 5551234567)) = Inl TypeError"
  by (simp add: formatPhone_def)

subsection \<open>C5: resolved values\<close>

text \<open>
  C5, as amended: for every list of conflicts whose source and target values are all
  neither \<^verbatim>\<open>null\<close> nor \<^verbatim>\<open>undefined\<close>, and for every strategy that names a rule of the
  tables, \<^verbatim>\<open>ai-resolve\<close> or a strategy that \<^verbatim>\<open>replace('-', '_')\<close> turns into \<^verbatim>\<open>merge\<close>,
  \<^verbatim>\<open>source_wins\<close>, \<^verbatim>\<open>target_wins\<close> or \<^verbatim>\<open>latest_wins\<close>, every resolution that
  \<^verbatim>\<open>resolveConflicts\<close> returns with \<open>resolved = true\<close> has a resolved value that is neither
  \<^verbatim>\<open>null\<close> nor \<^verbatim>\<open>undefined\<close>. The data types are arbitrary.
\<close>

theorem resolved_values_not_null:
  assumes "\<forall>c\<in>set cs. \<not> nullish (sourceValue c) \<and> \<not> nullish (targetValue c)"
    and "strategy = ''ai-resolve'' \<or>
         replaceDash strategy \<in> {''merge'', ''source_wins'', ''target_wins'', ''latest_wins''}"
  shows "\<forall>r\<in>set (resolutions (resolveConflicts B cs strategy)).
           resolved r \<longrightarrow> \<not> nullish (resolvedValue r)"
  using assms by (rule resolutions_nonnull)

text \<open>
  The amended C5 on the conflict between \<^verbatim>\<open>'Open'\<close> and \<^verbatim>\<open>'Closed'\<close>, under \<^verbatim>\<open>ai-resolve\<close>
  and under \<^verbatim>\<open>source-wins\<close>.
\<close>

theorem resolved_values_not_null_witness:
  "\<not> nullish (sourceValue statusConflict) \<and> \<not> nullish (targetValue statusConflict) \<and>
   replaceDash ''source-wins'' = ''source_wins'' \<and>
   resolved (hd (resolutions (resolveConflicts sampleBuiltins [statusConflict] ''ai-resolve''))) \<and>
   \<not> nullish (resolvedValue (hd (resolutions (resolveConflicts sampleBuiltins [statusConflict] ''ai-resolve'')))) \<and>
   resolved (hd (resolutions (resolveConflicts sampleBuiltins [statusConflict] ''source-wins''))) \<and>
   \<not> nullish (resolvedValue (hd (resolutions (resolveConflicts sampleBuiltins [statusConflict] ''source-wins''))))"
proof -
  have h: "\<forall>c\<in>set [statusConflict]. \<not> nullish (sourceValue c) \<and> \<not> nullish (targetValue c)"
    by (simp add: statusConflict_def nullish_def)
  have a: "''ai-resolve'' = ''ai-resolve'' \<or>
      replaceDash ''ai-resolve'' \<in> {''merge'', ''source_wins'', ''target_wins'', ''latest_wins''}"
    by simp
  have b: "''source-wins'' = ''ai-resolve'' \<or>
      replaceDash ''source-wins'' \<in> {''merge'', ''source_wins'', ''target_wins'', ''latest_wins''}"
    by simp
  have r: "resolutions (resolveConflicts sampleBuiltins [statusConflict] ''source-wins'') =
     [\<lparr>r_field = ''Status'', r_sourceValue = JStr ''Open'', r_targetValue = JStr ''Closed'',
       resolvedValue = JStr ''Open'', r_strategy = ''source-wins'',
       confidence = dbl (7 / 10), resolved = True\<rparr>]"
    by (simp add: resolveConflicts_def resolveIndividualConflict_def statusConflict_def Let_def
        call_source)
  show ?thesis
    using h resolved_values_not_null [OF h a, of sampleBuiltins]
      resolved_values_not_null [OF h b, of sampleBuiltins]
    by (simp add: resolve_status_ai r)
qed

text \<open>
  C5 as stated fails. Under \<^verbatim>\<open>source-wins\<close>, a conflict whose source value is \<^verbatim>\<open>null\<close>, and
  the conflict without values that \<^verbatim>\<open>detectUpdateConflicts\<close> reports, are both resolved,
  to \<^verbatim>\<open>null\<close> and to \<^verbatim>\<open>undefined\<close>. And a strategy that names an inherited function is
  resolved with what that function returns: with the data type \<^verbatim>\<open>'constructor'\<close> and the
  strategy \<^verbatim>\<open>'getOwnPropertyDescriptor'\<close>, the conflict between \<^verbatim>\<open>'Open'\<close> and \<^verbatim>\<open>'Closed'\<close>
  is resolved to \<^verbatim>\<open>undefined\<close>.
\<close>

theorem resolved_with_null_value:
  "map resolved
     (resolutions (resolveConflicts sampleBuiltins [nullSourceConflict, updateConflict] ''source-wins''))
     = [True, True] \<and>
   map resolvedValue
     (resolutions (resolveConflicts sampleBuiltins [nullSourceConflict, updateConflict] ''source-wins''))
     = [JNull, JUndefined] \<and>
   map resolved
     (resolutions (resolveConflicts sampleBuiltins [constructorConflict] ''getOwnPropertyDescriptor''))
     = [True] \<and>
   map resolvedValue
     (resolutions (resolveConflicts sampleBuiltins [constructorConflict] ''getOwnPropertyDescriptor''))
     = [JUndefined]"
proof -
  have a: "map resolved
     (resolutions (resolveConflicts sampleBuiltins [nullSourceConflict, updateConflict] ''source-wins''))
     = [True, True]"
    "map resolvedValue
     (resolutions (resolveConflicts sampleBuiltins [nullSourceConflict, updateConflict] ''source-wins''))
     = [JNull, JUndefined]"
    by (simp_all add: resolveConflicts_def resolveIndividualConflict_def nullSourceConflict_def
        updateConflict_def Let_def call_source)
  have b: "map resolved
     (resolutions (resolveConflicts sampleBuiltins [constructorConflict] ''getOwnPropertyDescriptor''))
     = [True]"
    "map resolvedValue
     (resolutions (resolveConflicts sampleBuiltins [constructorConflict] ''getOwnPropertyDescriptor''))
     = [JUndefined]"
    by (simp_all add: resolveConflicts_def Let_def inherited_rule_resolution)
  show ?thesis using a b by (intro conjI)
qed

subsection \<open>C6: the success rate\<close>

text \<open>
  C6, as amended: when \<^verbatim>\<open>performSync\<close> completes, the \<open>successRate\<close> of its result is the
  number 0 when \<open>totalRecords\<close> is 0, and otherwise the string that \<^verbatim>\<open>toFixed(2)\<close> makes of
  the double \<open>successfulRecords / totalRecords * 100\<close>: a number \<open>n\<close> of hundredths written
  with two decimals, which differs from the exact quotient by at most \<open>0.005 + 2 ^ -45\<close>.
\<close>

theorem success_rate_two_decimals:
  assumes "performSync B integ sourceData = Some (Inr r)"
  shows "successRate r =
           (if totalRecords r = 0 then JNum (Fin 0)
            else JStr (toFixed2 (dbl (dbl (of_nat (successfulRecords r) / of_nat (totalRecords r)) * 100)))) \<and>
         (totalRecords r \<noteq> 0 \<longrightarrow>
            (\<exists>n. successRate r = JStr (formatHundredths n) \<and>
               \<bar>of_nat n / 100 - 100 * (of_nat (successfulRecords r) / of_nat (totalRecords r) :: rat)\<bar>
                 \<le> 1 / 200 + 1 / 2 ^ 45))"
  using success_rate_general [OF assms] success_rate_rounded [OF assms] by blast

text \<open>The amended C6 on the run over three records of which one is written.\<close>

theorem success_rate_two_decimals_witness:
  "performSync sampleBuiltins sampleIntegration threeRecords =
     Some (Inr \<lparr>totalRecords = 3, processedRecords = 3, successfulRecords = 1, failedRecords = 2,
       conflicts = 0, errors = [rejection, rejection], successRate = JStr ''33.33''\<rparr>) \<and>
   JStr ''33.33'' = JStr (toFixed2 (dbl (dbl (of_nat 1 / of_nat 3) * 100)))"
  using success_rate_two_decimals [OF sync_three_records] sync_three_records
  by simp

text \<open>
  C6 as stated fails on that run: the success rate is the string \<^verbatim>\<open>'33.33'\<close>, which is
  neither the number \<open>1 / 3 * 100\<close> nor a numeral of it.
\<close>

theorem success_rate_not_exact:
  "map_option (map_sum id successRate) (performSync sampleBuiltins sampleIntegration threeRecords)
     = Some (Inr (JStr ''33.33'')) \<and>
   map_option (map_sum id successfulRecords) (performSync sampleBuiltins sampleIntegration threeRecords)
     = Some (Inr 1) \<and>
   map_option (map_sum id totalRecords) (performSync sampleBuiltins sampleIntegration threeRecords)
     = Some (Inr 3) \<and>
   JStr ''33.33'' \<noteq> JNum (Fin (1 / 3 * 100)) \<and>
   (3333 / 100 :: rat) \<noteq> 1 / 3 * 100"
  by (simp add: sync_three_records)

subsection \<open>C7: fan-out\<close>



subsection \<open>C8: symmetry of the similarity score\<close>

text \<open>
  C8: for all field names \<open>a\<close>, \<open>b\<close> and alias lists such that neither alias branch applies
  in either direction (\<open>b\<close> is not among the aliases of \<open>a\<close>, nor \<open>a\<close> among those of \<open>b\<close>,
  ignoring case), the score of \<open>a\<close> against \<open>b\<close> equals the score of \<open>b\<close> against \<open>a\<close> with
  the alias lists swapped.
\<close>

theorem similarity_symmetric:
  assumes "\<not> list_ex (\<lambda>match. toLowerCase match = toLowerCase b) aliasA"
    and "\<not> list_ex (\<lambda>match. toLowerCase match = toLowerCase a) aliasB"
  shows "calculateFieldSimilarity a b aliasA aliasB = calculateFieldSimilarity b a aliasB aliasA"
  by (rule similarity_swap)

text \<open>C8 on \<^verbatim>\<open>Street\<close> and \<^verbatim>\<open>State\<close>, which the edit distance scores at one half.\<close>

theorem similarity_symmetric_witness:
  "\<not> list_ex (\<lambda>match. toLowerCase match = toLowerCase ''State'') [''Address1''] \<and>
   \<not> list_ex (\<lambda>match. toLowerCase match = toLowerCase ''Street'') [''StateProvince''] \<and>
   calculateFieldSimilarity ''State'' ''Street'' [''StateProvince''] [''Address1''] = 1 / 2"
proof -
  have h: "\<not> list_ex (\<lambda>match. toLowerCase match = toLowerCase ''State'') [''Address1'']"
    "\<not> list_ex (\<lambda>match. toLowerCase match = toLowerCase ''Street'') [''StateProvince'']"
    by (simp_all add: toLowerCase_def)
  show ?thesis
    using h similarity_symmetric [OF h] similarity_example by simp
qed

subsection \<open>C9: unknown data types\<close>

text \<open>
  C9: for every conflict whose data type is missing or is none of \<^verbatim>\<open>String\<close>, \<^verbatim>\<open>Number\<close>,
  \<^verbatim>\<open>Date\<close>, \<^verbatim>\<open>Boolean\<close>, resolving it under \<^verbatim>\<open>source-wins\<close>, \<^verbatim>\<open>target-wins\<close> or
  \<^verbatim>\<open>latest-wins\<close>, or under \<^verbatim>\<open>ai-resolve\<close> when its field is not of high priority, applies
  the rule that the table of the data type \<^verbatim>\<open>String\<close> has for the strategy (\<^verbatim>\<open>merge\<close> for
  \<^verbatim>\<open>ai-resolve\<close>): the resolution has this rule's result as its resolved value, the
  strategy, the confidence of the branch (0.8 for \<^verbatim>\<open>ai-resolve\<close>, 0.7 otherwise) and
  \<open>resolved = true\<close>. The resolved value is the source value under \<^verbatim>\<open>source-wins\<close>, the
  target value under \<^verbatim>\<open>target-wins\<close> and \<^verbatim>\<open>latest-wins\<close>, and the merge of strings under
  \<^verbatim>\<open>ai-resolve\<close>; the resolution is the one that the same conflict gets with the data type
  \<^verbatim>\<open>String\<close>.
\<close>

theorem unknown_data_type_uses_string_rules:
  assumes "dataType c = None \<or>
           (\<exists>d. dataType c = Some d \<and> d \<notin> {''String'', ''Number'', ''Date'', ''Boolean''})"
    and "strategy \<in> {''source-wins'', ''target-wins'', ''latest-wins''} \<or>
         (strategy = ''ai-resolve'' \<and> fieldPriority (field c) \<noteq> Some ''high'')"
  shows "(\<exists>m. stringRules B (if strategy = ''ai-resolve'' then ''merge'' else replaceDash strategy)
                = Some m \<and>
              resolveIndividualConflict B c strategy =
                \<lparr>r_field = field c, r_sourceValue = sourceValue c, r_targetValue = targetValue c,
                 resolvedValue = m (sourceValue c) (targetValue c) JUndefined JUndefined,
                 r_strategy = strategy,
                 confidence = (if strategy = ''ai-resolve'' then dbl (8 / 10) else dbl (7 / 10)),
                 resolved = True\<rparr>) \<and>
         resolvedValue (resolveIndividualConflict B c strategy) =
           (if strategy = ''source-wins'' then sourceValue c
            else if strategy = ''ai-resolve''
            then (if truthy (sourceValue c) \<and> truthy (targetValue c)
                  then JStr (toStringJS B (sourceValue c) @ '' | '' @ toStringJS B (targetValue c))
                  else jsOr (sourceValue c) (targetValue c))
            else targetValue c) \<and>
         resolveIndividualConflict B c strategy =
           resolveIndividualConflict B (c\<lparr>dataType := Some ''String''\<rparr>) strategy \<and>
         resolved (resolveIndividualConflict B c strategy)"
  using assms by (rule unknown_type_falls_back)

text \<open>
  C9 on a conflict of the data type \<^verbatim>\<open>Picklist\<close> between \<^verbatim>\<open>'Open'\<close> and \<^verbatim>\<open>'Closed'\<close>: under
  \<^verbatim>\<open>ai-resolve\<close> it is resolved to the merged string, under \<^verbatim>\<open>source-wins\<close> to \<^verbatim>\<open>'Open'\<close>.
\<close>

theorem unknown_data_type_uses_string_rules_witness:
  "dataType picklistConflict = Some ''Picklist'' \<and>
   ''Picklist'' \<notin> {''String'', ''Number'', ''Date'', ''Boolean''} \<and>
   fieldPriority (field picklistConflict) = None \<and>
   resolveIndividualConflict sampleBuiltins picklistConflict ''ai-resolve'' =
     \<lparr>r_field = ''Status'', r_sourceValue = JStr ''Open'', r_targetValue = JStr ''Closed'',
      resolvedValue = JStr ''Open | Closed'', r_strategy = ''ai-resolve'',
      confidence = dbl (8 / 10), resolved = True\<rparr> \<and>
   resolveIndividualConflict sampleBuiltins picklistConflict ''ai-resolve'' =
     resolveIndividualConflict sampleBuiltins (picklistConflict\<lparr>dataType := Some ''String''\<rparr>) ''ai-resolve'' \<and>
   resolved (resolveIndividualConflict sampleBuiltins picklistConflict ''ai-resolve'') \<and>
   resolveIndividualConflict sampleBuiltins picklistConflict ''source-wins'' =
     \<lparr>r_field = ''Status'', r_sourceValue = JStr ''Open'', r_targetValue = JStr ''Closed'',
      resolvedValue = JStr ''Open'', r_strategy = ''source-wins'',
      confidence = dbl (7 / 10), resolved = True\<rparr>"
proof -
  have a: "dataType picklistConflict = Some ''Picklist''"
    "''Picklist'' \<notin> {''String'', ''Number'', ''Date'', ''Boolean''}"
    by (simp_all add: picklistConflict_def)
  have h1: "dataType picklistConflict = None \<or>
           (\<exists>d. dataType picklistConflict = Some d \<and> d \<notin> {''String'', ''Number'', ''Date'', ''Boolean''})"
    using a by simp
  have p: "fieldPriority (field picklistConflict) = None"
    by (simp add: picklistConflict_def fieldPriority_def)
  have h2: "''ai-resolve'' \<in> {''source-wins'', ''target-wins'', ''latest-wins''} \<or>
         (''ai-resolve'' = ''ai-resolve'' \<and> fieldPriority (field picklistConflict) \<noteq> Some ''high'')"
    using p by simp
  have h3: "''source-wins'' \<in> {''source-wins'', ''target-wins'', ''latest-wins''} \<or>
         (''source-wins'' = ''ai-resolve'' \<and> fieldPriority (field picklistConflict) \<noteq> Some ''high'')"
    by simp
  have f: "field picklistConflict = ''Status''" "sourceValue picklistConflict = JStr ''Open''"
    "targetValue picklistConflict = JStr ''Closed''"
    by (simp_all add: picklistConflict_def)
  note t = unknown_data_type_uses_string_rules [OF h1 h2, of sampleBuiltins]
  note u = unknown_data_type_uses_string_rules [OF h1 h3, of sampleBuiltins]
  have ai: "resolveIndividualConflict sampleBuiltins picklistConflict ''ai-resolve'' =
     \<lparr>r_field = ''Status'', r_sourceValue = JStr ''Open'', r_targetValue = JStr ''Closed'',
      resolvedValue = JStr ''Open | Closed'', r_strategy = ''ai-resolve'',
      confidence = dbl (8 / 10), resolved = True\<rparr>"
    using conjunct1 [OF t] by (auto simp: stringRules_entries mergeString_def f)
  have sw: "resolveIndividualConflict sampleBuiltins picklistConflict ''source-wins'' =
     \<lparr>r_field = ''Status'', r_sourceValue = JStr ''Open'', r_targetValue = JStr ''Closed'',
      resolvedValue = JStr ''Open'', r_strategy = ''source-wins'',
      confidence = dbl (7 / 10), resolved = True\<rparr>"
    using conjunct1 [OF u] by (auto simp: stringRules_entries source_wins_def f)
  show ?thesis
    using a(1) a(2) p ai conjunct1 [OF conjunct2 [OF conjunct2 [OF t]]]
      conjunct2 [OF conjunct2 [OF conjunct2 [OF t]]] sw
    by (intro conjI)
qed

subsection \<open>C10: the frame of conflict resolution\<close>

text \<open>
  C10: \<^verbatim>\<open>applyConflictResolution\<close> leaves every field of the mapped record as it was, unless
  a resolution with \<open>resolved = true\<close> names the field: a field with no resolution, or with
  unresolved ones only, keeps its value (and stays absent if it was absent).
\<close>

theorem conflict_resolution_frame:
  assumes "\<forall>res\<in>set (resolutions rb). resolved res \<longrightarrow> r_field res \<noteq> f"
  shows "map_of (applyConflictResolution m rb) f = map_of m f"
  using assms by (rule applyConflictResolution_frame)

text \<open>
  C10 on a record whose \<^verbatim>\<open>Name\<close> has a resolved resolution and whose \<^verbatim>\<open>Id\<close> has an
  unresolved one.
\<close>

theorem conflict_resolution_frame_witness:
  "map_of (applyConflictResolution sampleRecord sampleResolutions) ''Id'' = Some (JStr ''account_1'') \<and>
   map_of (applyConflictResolution sampleRecord sampleResolutions) ''Name'' = Some (JStr ''Tech Corp'')"
proof -
  have h: "\<forall>res\<in>set (resolutions sampleResolutions). resolved res \<longrightarrow> r_field res \<noteq> ''Id''"
    by (simp add: sampleResolutions_def)
  have n: "map_of (applyConflictResolution sampleRecord sampleResolutions) ''Name'' = Some (JStr ''Tech Corp'')"
    by (simp add: applyConflictResolution_def sampleResolutions_def sampleRecord_def map_of_setProp)
  show ?thesis
    using conflict_resolution_frame [OF h, of sampleRecord] n by (simp add: sampleRecord_def)
qed

end
